theory Spec2Isabelle
  imports Main
begin

section \<open>JavaScript values\<close>

text \<open>
  The module \<^verbatim>\<open>onboarding-helpers.ts\<close> is dynamically typed where it matters: provider
  tables are JSON, the autoconfig document is whatever the XML parser returns, and the
  connection settings are a bag of properties. Values are therefore modelled by one
  datatype of JavaScript values. Numbers are the integers and \<open>NaN\<close> (ports are the only
  numbers the module computes with); strings are byte strings holding the UTF-8 form, so
  the case mapping and the white space of \<open>toLowerCase\<close> and \<open>trim\<close> are the ASCII ones.
\<close>

datatype jsval =
    Undefined
  | Null
  | JBool bool
  | JNum int
  | JNaN
  | JStr string
  | JArr "jsval list"
  | JObj "(string \<times> jsval) list"

datatype js_error =
    TypeError
  | OAuthExchangeError nat string jsval
  | ProfileError nat string jsval
  | NoMailboxError
  | NetworkError
  | SyntaxError
  | ValidatorError string

text \<open>Truthiness, as tested by \<^verbatim>\<open>!x\<close>, \<^verbatim>\<open>x || y\<close>, \<^verbatim>\<open>x ? a : b\<close> and \<^verbatim>\<open>if (x)\<close>.\<close>

fun truthy :: "jsval \<Rightarrow> bool" where
  "truthy Undefined = False"
| "truthy Null = False"
| "truthy (JBool b) = b"
| "truthy (JNum n) = (n \<noteq> 0)"
| "truthy JNaN = False"
| "truthy (JStr s) = (s \<noteq> [])"
| "truthy (JArr xs) = True"
| "truthy (JObj kvs) = True"

definition js_or :: "jsval \<Rightarrow> jsval \<Rightarrow> jsval" where
  "js_or a b = (if truthy a then a else b)"

text \<open>
  Property read \<^verbatim>\<open>v.k\<close>: a \<open>TypeError\<close> on \<open>undefined\<close> and \<open>null\<close>, the own property of
  an object, and \<open>undefined\<close> on every other value. The module reads only the names
  \<^verbatim>\<open>emailProvider\<close>, \<^verbatim>\<open>$\<close>, \<^verbatim>\<open>id\<close>, \<^verbatim>\<open>type\<close>, \<^verbatim>\<open>incomingServer\<close>, \<^verbatim>\<open>outgoingServer\<close>,
  \<^verbatim>\<open>hostname\<close>, \<^verbatim>\<open>port\<close>, \<^verbatim>\<open>username\<close>, \<^verbatim>\<open>socketType\<close>, \<^verbatim>\<open>email\<close>, \<^verbatim>\<open>mail\<close>, \<^verbatim>\<open>name\<close>,
  \<^verbatim>\<open>displayName\<close>, \<^verbatim>\<open>access_token\<close> and \<^verbatim>\<open>refresh_token\<close> this way, none of which is a
  built-in member of a string, a number, a boolean or an array.
\<close>

fun js_get :: "jsval \<Rightarrow> string \<Rightarrow> js_error + jsval" where
  "js_get Undefined k = Inl TypeError"
| "js_get Null k = Inl TypeError"
| "js_get (JObj kvs) k = Inr (case map_of kvs k of None \<Rightarrow> Undefined | Some v \<Rightarrow> v)"
| "js_get v k = Inr Undefined"

section \<open>Strings\<close>

definition dquote :: char where
  "dquote = CHR 0x22"

definition backslash :: char where
  "backslash = CHR 0x5C"

fun join :: "string \<Rightarrow> string list \<Rightarrow> string" where
  "join sep [] = []"
| "join sep [x] = x"
| "join sep (x # y # ys) = x @ sep @ join sep (y # ys)"

text \<open>\<^verbatim>\<open>s.split(c)\<close> for a one-character separator: never empty.\<close>

fun split :: "char \<Rightarrow> string \<Rightarrow> string list" where
  "split c [] = [[]]"
| "split c (x # xs) =
     (if x = c then [] # split c xs
      else (case split c xs of [] \<Rightarrow> [[x]] | p # ps \<Rightarrow> (x # p) # ps))"

definition toLowerCase_char :: "char \<Rightarrow> char" where
  "toLowerCase_char c =
     (if 65 \<le> (of_char c :: nat) \<and> (of_char c :: nat) \<le> 90
      then char_of ((of_char c :: nat) + 32) else c)"

definition toLowerCase :: "string \<Rightarrow> string" where
  "toLowerCase s = map toLowerCase_char s"

definition is_space :: "char \<Rightarrow> bool" where
  "is_space c = ((of_char c :: nat) \<in> {9, 10, 11, 12, 13, 32})"

definition trim :: "string \<Rightarrow> string" where
  "trim s = rev (dropWhile is_space (rev (dropWhile is_space s)))"

definition js_includes :: "string \<Rightarrow> char \<Rightarrow> bool" where
  "js_includes s c = (c \<in> set s)"

text \<open>
  \<^verbatim>\<open>s.replace(pat, rep)\<close> with a string pattern: the first occurrence of \<open>pat\<close> is
  replaced, and in \<open>rep\<close> the patterns \<^verbatim>\<open>$$\<close>, \<^verbatim>\<open>$&\<close>, \<^verbatim>\<open>$`\<close> and \<^verbatim>\<open>$'\<close> are expanded (a
  string pattern has no capture groups, so \<^verbatim>\<open>$1\<close> stays as it is).
\<close>

fun getSubstitution :: "string \<Rightarrow> string \<Rightarrow> string \<Rightarrow> string \<Rightarrow> string" where
  "getSubstitution m b a [] = []"
| "getSubstitution m b a [c] = [c]"
| "getSubstitution m b a (c # d # r) =
     (if c = CHR ''$'' \<and> d = CHR ''$'' then CHR ''$'' # getSubstitution m b a r
      else if c = CHR ''$'' \<and> d = CHR ''&'' then m @ getSubstitution m b a r
      else if c = CHR ''$'' \<and> d = CHR 0x60 then b @ getSubstitution m b a r
      else if c = CHR ''$'' \<and> d = CHR 0x27 then a @ getSubstitution m b a r
      else c # getSubstitution m b a (d # r))"

fun find_first :: "string \<Rightarrow> string \<Rightarrow> string \<Rightarrow> (string \<times> string) option" where
  "find_first pat b [] = (if pat = [] then Some (b, []) else None)"
| "find_first pat b (c # cs) =
     (if take (length pat) (c # cs) = pat then Some (b, drop (length pat) (c # cs))
      else find_first pat (b @ [c]) cs)"

definition replace :: "string \<Rightarrow> string \<Rightarrow> string \<Rightarrow> string" where
  "replace s pat rep =
     (case find_first pat [] s of
        None \<Rightarrow> s
      | Some (b, a) \<Rightarrow> b @ getSubstitution pat b a rep @ a)"

text \<open>\<^verbatim>\<open>v.replace(pat, rep)\<close> on a value: only a string has the method.\<close>

fun replace_js :: "jsval \<Rightarrow> string \<Rightarrow> string \<Rightarrow> js_error + jsval" where
  "replace_js (JStr s) pat rep = Inr (JStr (replace s pat rep))"
| "replace_js v pat rep = Inl TypeError"

text \<open>\<^verbatim>\<open>v.trim()\<close> on a value: only a string has the method.\<close>

fun trim_js :: "jsval \<Rightarrow> js_error + jsval" where
  "trim_js (JStr s) = Inr (JStr (trim s))"
| "trim_js v = Inl TypeError"

subsection \<open>Numbers and strings\<close>

fun string_of_nat :: "nat \<Rightarrow> string" where
  "string_of_nat n =
     (if n < 10 then [char_of (48 + n)]
      else string_of_nat (n div 10) @ [char_of (48 + n mod 10)])"

declare string_of_nat.simps [simp del]

definition string_of_int :: "int \<Rightarrow> string" where
  "string_of_int i = (if i < 0 then CHR ''-'' # string_of_nat (nat (- i)) else string_of_nat (nat i))"

definition is_digit :: "char \<Rightarrow> bool" where
  "is_digit c = (48 \<le> (of_char c :: nat) \<and> (of_char c :: nat) \<le> 57)"

definition nat_of_digits :: "string \<Rightarrow> nat" where
  "nat_of_digits s = foldl (\<lambda>acc c. 10 * acc + ((of_char c :: nat) - 48)) 0 s"

text \<open>
  \<^verbatim>\<open>Number(s)\<close> on a string: white space is trimmed, the empty string is 0, a decimal
  numeral is its value. Every other string is \<open>NaN\<close> here; signs, fractions, exponents
  and radix prefixes are outside the model (the tables hold JSON numbers).
\<close>

definition stringToNumber :: "string \<Rightarrow> jsval" where
  "stringToNumber s =
     (let t = trim s in
      if t = [] then JNum 0
      else if list_all is_digit t then JNum (int (nat_of_digits t))
      else JNaN)"

text \<open>\<^verbatim>\<open>String(v)\<close>, as applied by a template literal and by a property key.\<close>

fun toString :: "jsval \<Rightarrow> string" where
  "toString Undefined = ''undefined''"
| "toString Null = ''null''"
| "toString (JBool b) = (if b then ''true'' else ''false'')"
| "toString (JNum n) = string_of_int n"
| "toString JNaN = ''NaN''"
| "toString (JStr s) = s"
| "toString (JArr xs) =
     join '','' (map (\<lambda>x. if x = Undefined \<or> x = Null then [] else toString x) xs)"
| "toString (JObj kvs) = ''[object Object]''"

fun Number :: "jsval \<Rightarrow> jsval" where
  "Number Undefined = JNaN"
| "Number Null = JNum 0"
| "Number (JBool b) = JNum (if b then 1 else 0)"
| "Number (JNum n) = JNum n"
| "Number JNaN = JNaN"
| "Number (JStr s) = stringToNumber s"
| "Number (JArr xs) = stringToNumber (toString (JArr xs))"
| "Number (JObj kvs) = JNaN"

subsection \<open>\<^verbatim>\<open>JSON.stringify\<close>\<close>

definition hexdigit :: "nat \<Rightarrow> char" where
  "hexdigit n = (if n < 10 then char_of (48 + n) else char_of (87 + n))"

definition json_escape :: "char \<Rightarrow> string" where
  "json_escape c =
     (let n = (of_char c :: nat) in
      if c = dquote then [backslash, dquote]
      else if c = backslash then [backslash, backslash]
      else if n = 8 then [backslash, CHR ''b'']
      else if n = 9 then [backslash, CHR ''t'']
      else if n = 10 then [backslash, CHR ''n'']
      else if n = 12 then [backslash, CHR ''f'']
      else if n = 13 then [backslash, CHR ''r'']
      else if n < 32 then [backslash, CHR ''u'', CHR ''0'', CHR ''0'', hexdigit (n div 16), hexdigit (n mod 16)]
      else [c])"

definition json_quote :: "string \<Rightarrow> string" where
  "json_quote s = dquote # concat (map json_escape s) @ [dquote]"

text \<open>
  \<open>JSON_stringify\<close> is the serialisation of a value in a property or element position:
  an object drops its \<open>undefined\<close> properties, an array writes \<open>null\<close> for them, and
  \<open>NaN\<close> is \<open>null\<close>. (At top level \<^verbatim>\<open>JSON.stringify(undefined)\<close> is \<open>undefined\<close>; the module
  only ever serialises an object literal.)
\<close>

fun JSON_stringify :: "jsval \<Rightarrow> string" where
  "JSON_stringify Undefined = ''null''"
| "JSON_stringify Null = ''null''"
| "JSON_stringify (JBool b) = (if b then ''true'' else ''false'')"
| "JSON_stringify (JNum n) = string_of_int n"
| "JSON_stringify JNaN = ''null''"
| "JSON_stringify (JStr s) = json_quote s"
| "JSON_stringify (JArr xs) = ''['' @ join '','' (map JSON_stringify xs) @ '']''"
| "JSON_stringify (JObj kvs) =
     ''{'' @ join '',''
       (map (\<lambda>(k, v). json_quote k @ '':'' @ JSON_stringify v)
          (filter (\<lambda>(k, v). v \<noteq> Undefined) kvs)) @ ''}''"

section \<open>Accounts and connection settings\<close>

text \<open>
  The settings object is a map from property names to values: a property can be
  present with the value \<open>undefined\<close>, which \<^verbatim>\<open>Object.assign\<close> copies like any other.
\<close>

type_synonym settings = "string \<rightharpoonup> jsval"

definition sget :: "settings \<Rightarrow> string \<Rightarrow> jsval" where
  "sget s k = (case s k of None \<Rightarrow> Undefined | Some v \<Rightarrow> v)"

text \<open>\<^verbatim>\<open>Object.assign(target, source)\<close>: every own property of the source is written.\<close>

definition Object_assign :: "settings \<Rightarrow> settings \<Rightarrow> settings" where
  "Object_assign target source = target ++ source"

section \<open>Identity hashing\<close>

text \<open>
  The digest is the library's: \<open>H\<close> stands for
  \<^verbatim>\<open>crypto.createHash('sha256').update(s, 'utf8').digest('hex')\<close>.
\<close>

definition settingsThatCouldChangeMailContents :: "settings \<Rightarrow> jsval" where
  "settingsThatCouldChangeMailContents connectionSettings = JObj
     [(''imap_username'', sget connectionSettings ''imap_username''),
      (''imap_host'', sget connectionSettings ''imap_host''),
      (''smtp_username'', sget connectionSettings ''smtp_username''),
      (''smtp_host'', sget connectionSettings ''smtp_host'')]"

definition idString :: "jsval \<Rightarrow> settings \<Rightarrow> string" where
  "idString emailAddress connectionSettings =
     toString emailAddress @ JSON_stringify (settingsThatCouldChangeMailContents connectionSettings)"

definition idForAccount :: "(string \<Rightarrow> string) \<Rightarrow> jsval \<Rightarrow> settings \<Rightarrow> string" where
  "idForAccount H emailAddress connectionSettings =
     take 8 (H (idString emailAddress connectionSettings))"


section \<open>The account and the world around the module\<close>

text \<open>
  Modelled from the spec: the class \<^verbatim>\<open>Account\<close> of \<^verbatim>\<open>mailspring-exports\<close> is not part of the
  sources. An account carries the fields the spec lists (\<open>emailAddress\<close>, \<open>provider\<close>,
  \<open>settings\<close>, \<open>id\<close>, \<open>label\<close>, \<open>authedAt\<close>) and the \<open>name\<close> the builders pass;
  \<^verbatim>\<open>account.clone()\<close> is a copy with the same fields, and the constructor's initial \<open>id\<close> and
  \<open>label\<close> are parameters.
\<close>

record account =
  acct_name :: jsval
  emailAddress :: string
  provider :: string
  settings :: settings
  acct_id :: string
  acct_label :: string
  authedAt :: "nat option"

definition clone :: "account \<Rightarrow> account" where
  "clone a = a"

definition new_Account ::
  "string \<Rightarrow> string \<Rightarrow> jsval \<Rightarrow> string \<Rightarrow> string \<Rightarrow> settings \<Rightarrow> account" where
  "new_Account id0 label0 nm email prov st =
     \<lparr>acct_name = nm, emailAddress = email, provider = prov, settings = st,
      acct_id = id0, acct_label = label0, authedAt = None\<rparr>"

text \<open>One MX answer of \<^verbatim>\<open>dns.resolveMx\<close>.\<close>

record mx_record =
  exchange :: string
  priority :: nat

text \<open>
  One server of a structured template (\<^verbatim>\<open>mailcore-provider-settings.json\<close>, not part of the
  sources): the properties \<open>hostname\<close>, \<open>port\<close>, \<open>starttls\<close>, \<open>ssl\<close>, \<open>tls\<close>, each possibly
  \<open>undefined\<close>.
\<close>

record mc_server =
  mc_hostname :: jsval
  mc_port :: jsval
  mc_starttls :: jsval
  mc_ssl :: jsval
  mc_tls :: jsval

text \<open>
  A structured template: \<^verbatim>\<open>p['domain-match']\<close> and \<^verbatim>\<open>p['mx-match']\<close> (the empty list where the
  property is missing), \<^verbatim>\<open>p.servers.imap\<close> and \<^verbatim>\<open>p.servers.smtp\<close> (likewise).
\<close>

record mc_provider =
  domain_match :: "string list"
  mx_match :: "string list"
  servers_imap :: "mc_server list"
  servers_smtp :: "mc_server list"

text \<open>
  A preset of \<^verbatim>\<open>mailspring-provider-settings.json\<close> (not part of the sources): every
  property the module reads, each possibly \<open>undefined\<close>.
\<close>

record mstemplate =
  ms_alias :: jsval
  ms_imap_host :: jsval
  ms_imap_port :: jsval
  ms_imap_security :: jsval
  ms_imap_user_format :: jsval
  ms_imap_allow_insecure_ssl :: jsval
  ms_smtp_host :: jsval
  ms_smtp_port :: jsval
  ms_smtp_security :: jsval
  ms_smtp_user_format :: jsval
  ms_smtp_allow_insecure_ssl :: jsval
  ms_container_folder :: jsval

record http_response =
  status :: nat
  statusText :: string
  body :: string

text \<open>A response whose body is read with \<^verbatim>\<open>resp.json()\<close>; \<open>None\<close> is a body that is not JSON.\<close>

record json_response =
  j_status :: nat
  j_statusText :: string
  j_json :: "jsval option"

text \<open>\<^verbatim>\<open>response.ok\<close>: the status is in the range 200 to 299.\<close>

definition ok :: "nat \<Rightarrow> bool" where
  "ok st = (200 \<le> st \<and> st \<le> 299)"

text \<open>
  Everything the module takes from outside: the libraries (digest, DNS, regular
  expressions, HTTP, the XML parser), the two provider tables, the constants of
  \<^verbatim>\<open>onboarding-constants\<close>, the stores and the validator process. A regular expression is
  given by its source text, \<open>regex_test src s\<close> being \<^verbatim>\<open>new RegExp(src).test(s)\<close> for
  a pattern that compiles (a table pattern on which \<^verbatim>\<open>new RegExp\<close> throws is not modelled); the
  structured table is \<^verbatim>\<open>Object.values(MailcoreProviderSettings)\<close>, in the table's order; the
  preset table is looked up by own property (members inherited from \<^verbatim>\<open>Object.prototype\<close>,
  such as \<^verbatim>\<open>constructor\<close>, are not modelled).
\<close>

record env =
  sha256_hex :: "string \<Rightarrow> string"
  resolveMx :: "string \<Rightarrow> js_error + mx_record list"
  regex_test :: "string \<Rightarrow> string \<Rightarrow> bool"
  MailcoreProviderSettings :: "mc_provider list"
  MailspringProviderSettings :: "string \<rightharpoonup> mstemplate"
  fetch :: "string \<Rightarrow> http_response option"
  parseStringPromise :: "string \<Rightarrow> jsval option"
  containerFolderDefaultGetter :: string
  fetch_post :: "string \<Rightarrow> (string \<times> string) list \<Rightarrow> js_error + json_response"
  fetch_bearer :: "string \<Rightarrow> string \<Rightarrow> js_error + json_response"
  GMAIL_CLIENT_ID :: string
  GMAIL_CLIENT_SECRET :: string
  O365_CLIENT_ID :: string
  O365_SCOPES :: "string list"
  CODE_VERIFIER :: string
  LOCAL_SERVER_PORT :: nat
  initial_id :: string
  initial_label :: string
  proc_test :: "account \<Rightarrow> js_error option"
  now :: nat

text \<open>The input and output the module performs, in order.\<close>

datatype io_event =
    DnsResolveMx string
  | HttpGet string
  | HttpPost string
  | ValidatorTest

section \<open>Results and effects\<close>

text \<open>
  A promise is a value of \<open>js_error + 'a\<close>: \<open>Inl\<close> a rejection (a thrown error), \<open>Inr\<close>
  the resolved value. A function that performs input or output returns the events it
  performed, in order, beside its result.
\<close>

definition bindE :: "js_error + 'a \<Rightarrow> ('a \<Rightarrow> js_error + 'b) \<Rightarrow> js_error + 'b" where
  "bindE m f = (case m of Inl e \<Rightarrow> Inl e | Inr x \<Rightarrow> f x)"

section \<open>MX resolver\<close>

definition mxRecordsForDomain :: "env \<Rightarrow> string \<Rightarrow> io_event list \<times> (js_error + string list)" where
  "mxRecordsForDomain E domain =
     ([DnsResolveMx domain],
      case resolveMx E domain of
        Inl err \<Rightarrow> Inr []
      | Inr addresses \<Rightarrow> Inr (map (\<lambda>a. toLowerCase (exchange a)) addresses))"

section \<open>Remote autoconfig fetcher\<close>

text \<open>
  \<open>fetch E url = None\<close> is a fetch that rejects (a network failure, also while the body
  is read); \<open>parseStringPromise E body = None\<close> is a parse failure. \<open>JBool False\<close> is the
  \<^verbatim>\<open>false\<close> the function returns from its \<^verbatim>\<open>catch\<close>.
\<close>

definition getThunderbirdAutoconfig :: "env \<Rightarrow> string \<Rightarrow> io_event list \<times> jsval" where
  "getThunderbirdAutoconfig E url =
     ([HttpGet url],
      case fetch E url of
        None \<Rightarrow> JBool False
      | Some response \<Rightarrow>
          if \<not> ok (status response) then JBool False
          else (case parseStringPromise E (body response) of
                  None \<Rightarrow> JBool False
                | Some parsedBody \<Rightarrow> parsedBody))"

text \<open>
  A request that is treated as "not found": a network failure, a response whose status is
  not 2xx, or a body the XML parser rejects.
\<close>

definition not_found :: "env \<Rightarrow> string \<Rightarrow> bool" where
  "not_found E url =
     (case fetch E url of
        None \<Rightarrow> True
      | Some response \<Rightarrow>
          \<not> ok (status response) \<or> parseStringPromise E (body response) = None)"

record server_details =
  host :: jsval
  port :: jsval
  username :: string
  security :: string

definition extractServerDetails :: "jsval \<Rightarrow> account \<Rightarrow> js_error + server_details" where
  "extractServerDetails server account =
     bindE (js_get server ''hostname'') (\<lambda>h.
     bindE (js_get server ''port'') (\<lambda>p.
     bindE (js_get server ''username'') (\<lambda>u.
     bindE (js_get server ''socketType'') (\<lambda>st.
       Inr \<lparr>host = h, port = p,
            username =
              (if u = JStr ''%EMAILLOCALPART%'' then hd (split CHR ''@'' (emailAddress account))
               else emailAddress account),
            security =
              (if st = JStr ''plain'' then ''None''
               else if st = JStr ''STARTTLS'' then ''STARTTLS''
               else if st = JStr ''SSL'' then ''SSL / TLS''
               else ''STARTTLS'')\<rparr>))))"

definition domain_of :: "string \<Rightarrow> string" where
  "domain_of email = toLowerCase (last (split CHR ''@'' email))"

text \<open>\<^verbatim>\<open>provider.find(p => p.$.id === domain)\<close>\<close>

fun find_provider :: "string \<Rightarrow> jsval list \<Rightarrow> js_error + jsval option" where
  "find_provider domain [] = Inr None"
| "find_provider domain (p # ps) =
     (case js_get p ''$'' of
        Inl e \<Rightarrow> Inl e
      | Inr attrs \<Rightarrow>
          (case js_get attrs ''id'' of
             Inl e \<Rightarrow> Inl e
           | Inr i \<Rightarrow> if i = JStr domain then Inr (Some p) else find_provider domain ps))"

text \<open>The \<^verbatim>\<open>for ... of\<close> loop over an array of servers, left at the first entry of the type.\<close>

fun scan_servers :: "string \<Rightarrow> account \<Rightarrow> jsval list \<Rightarrow> js_error + server_details option" where
  "scan_servers ty account [] = Inr None"
| "scan_servers ty account (s # ss) =
     (case js_get s ''$'' of
        Inl e \<Rightarrow> Inl e
      | Inr attrs \<Rightarrow>
          (case js_get attrs ''type'' of
             Inl e \<Rightarrow> Inl e
           | Inr t \<Rightarrow>
               if t = JStr ty
               then (case extractServerDetails s account of
                       Inl e \<Rightarrow> Inl e
                     | Inr d \<Rightarrow> Inr (Some d))
               else scan_servers ty account ss))"

text \<open>The block "Handle IMAP" (\<open>ty\<close> is \<open>imap\<close>) and the block "Handle SMTP" (\<open>smtp\<close>).\<close>

definition handle_servers :: "string \<Rightarrow> account \<Rightarrow> jsval \<Rightarrow> js_error + server_details option" where
  "handle_servers ty account servers =
     (case servers of
        JArr xs \<Rightarrow> scan_servers ty account xs
      | _ \<Rightarrow>
          bindE (js_get servers ''$'') (\<lambda>attrs.
          bindE (js_get attrs ''type'') (\<lambda>t.
            if t = JStr ty
            then bindE (extractServerDetails servers account) (\<lambda>d. Inr (Some d))
            else Inr None)))"

text \<open>\<^verbatim>\<open>details?.f\<close> on the details found, or on \<open>null\<close>.\<close>

definition opt_chain :: "server_details option \<Rightarrow> (server_details \<Rightarrow> jsval) \<Rightarrow> jsval" where
  "opt_chain d f = (case d of None \<Rightarrow> Undefined | Some x \<Rightarrow> f x)"

definition autoconfig_settings ::
  "account \<Rightarrow> string \<Rightarrow> server_details option \<Rightarrow> server_details option \<Rightarrow> settings" where
  "autoconfig_settings populated domain imapDetails smtpDetails =
     [''imap_host'' \<mapsto> js_or (opt_chain imapDetails host) (JStr (''imap.'' @ domain)),
      ''imap_port'' \<mapsto> opt_chain imapDetails port,
      ''imap_username'' \<mapsto> opt_chain imapDetails (\<lambda>d. JStr (username d)),
      ''imap_password'' \<mapsto> sget (settings populated) ''imap_password'',
      ''imap_security'' \<mapsto> opt_chain imapDetails (\<lambda>d. JStr (security d)),
      ''imap_allow_insecure_ssl'' \<mapsto> JBool False,
      ''smtp_host'' \<mapsto> js_or (opt_chain smtpDetails host) (JStr (''smtp.'' @ domain)),
      ''smtp_port'' \<mapsto> opt_chain smtpDetails port,
      ''smtp_username'' \<mapsto> opt_chain smtpDetails (\<lambda>d. JStr (username d)),
      ''smtp_password'' \<mapsto>
        js_or (sget (settings populated) ''smtp_password'') (sget (settings populated) ''imap_password''),
      ''smtp_security'' \<mapsto> opt_chain smtpDetails (\<lambda>d. JStr (security d)),
      ''smtp_allow_insecure_ssl'' \<mapsto> JBool False,
      ''container_folder'' \<mapsto> JStr []]"

text \<open>
  What \<open>TryThunderbirdAutoconfig\<close> does with the document it fetched: \<open>Inr None\<close> is the
  \<^verbatim>\<open>false\<close> it returns, \<open>Inr (Some p)\<close> the populated account.
\<close>

definition interpret_autoconfig ::
  "account \<Rightarrow> account \<Rightarrow> string \<Rightarrow> jsval \<Rightarrow> js_error + account option" where
  "interpret_autoconfig populated account domain autoConfig =
     (if autoConfig = JBool False then Inr None
      else
        bindE (js_get autoConfig ''emailProvider'') (\<lambda>emailProvider.
        if \<not> truthy emailProvider then Inr None
        else
          bindE (case emailProvider of
                   JArr ps \<Rightarrow> find_provider domain ps
                 | _ \<Rightarrow> Inr (Some emailProvider)) (\<lambda>found.
          case found of
            None \<Rightarrow> Inr None
          | Some selected \<Rightarrow>
              bindE (js_get selected ''incomingServer'') (\<lambda>incomingServer.
              if incomingServer = Undefined then Inr None
              else
                bindE (js_get selected ''outgoingServer'') (\<lambda>outgoingServer.
                if outgoingServer = Undefined then Inr None
                else
                  bindE (handle_servers ''imap'' account incomingServer) (\<lambda>imapDetails.
                  bindE (handle_servers ''smtp'' account outgoingServer) (\<lambda>smtpDetails.
                    Inr (Some (populated\<lparr>settings :=
                      Object_assign (autoconfig_settings populated domain imapDetails smtpDetails)
                        (settings populated)\<rparr>)))))))))"

definition autoconfig_url1 :: "string \<Rightarrow> string" where
  "autoconfig_url1 domain = ''https://autoconfig.'' @ domain @ ''/mail/config-v1.1.xml''"

definition autoconfig_url2 :: "string \<Rightarrow> string" where
  "autoconfig_url2 domain = ''https://'' @ domain @ ''/.well-known/autoconfig/mail/config-v1.1.xml''"

text \<open>The two requests: the second is made when the first returned \<^verbatim>\<open>false\<close>.\<close>

definition fetch_autoconfig :: "env \<Rightarrow> string \<Rightarrow> io_event list \<times> jsval" where
  "fetch_autoconfig E domain =
     (let first = getThunderbirdAutoconfig E (autoconfig_url1 domain) in
      if snd first = JBool False
      then (let second = getThunderbirdAutoconfig E (autoconfig_url2 domain)
            in (fst first @ fst second, snd second))
      else first)"

definition TryThunderbirdAutoconfig ::
  "env \<Rightarrow> account \<Rightarrow> account \<Rightarrow> io_event list \<times> (js_error + account option)" where
  "TryThunderbirdAutoconfig E populated account =
     (let domain = domain_of (emailAddress account);
          fetched = fetch_autoconfig E domain
      in (fst fetched, interpret_autoconfig populated account domain (snd fetched)))"

text \<open>
  \<^verbatim>\<open>s.$.type\<close> of a server entry, and the entries of an \<open>incomingServer\<close> or
  \<open>outgoingServer\<close> value (one element, or an array of them) all carrying a type other
  than \<open>ty\<close>.
\<close>

definition entry_type :: "jsval \<Rightarrow> js_error + jsval" where
  "entry_type s = bindE (js_get s ''$'') (\<lambda>attrs. js_get attrs ''type'')"

definition other_type :: "string \<Rightarrow> jsval \<Rightarrow> bool" where
  "other_type ty s = (case entry_type s of Inl e \<Rightarrow> False | Inr t \<Rightarrow> t \<noteq> JStr ty)"

definition no_entry_of_type :: "string \<Rightarrow> jsval \<Rightarrow> bool" where
  "no_entry_of_type ty servers =
     (case servers of
        JArr xs \<Rightarrow> list_all (other_type ty) xs
      | _ \<Rightarrow> other_type ty servers)"

section \<open>Settings synthesizer\<close>

definition usernameWithFormat :: "account \<Rightarrow> jsval \<Rightarrow> jsval" where
  "usernameWithFormat account format =
     (if format = JStr ''email'' then JStr (emailAddress account)
      else if format = JStr ''email-without-domain''
      then JStr (hd (split CHR ''@'' (emailAddress account)))
      else Undefined)"

subsection \<open>Structured table\<close>

text \<open>The predicate given to \<^verbatim>\<open>Object.values(MailcoreProviderSettings).find\<close>.\<close>

definition matches_provider :: "env \<Rightarrow> string \<Rightarrow> string list \<Rightarrow> mc_provider \<Rightarrow> bool" where
  "matches_provider E domain mxRecords p =
     (list_ex (\<lambda>test. regex_test E (''^'' @ test @ ''$'') domain) (domain_match p) \<or>
      list_ex (\<lambda>test. list_ex (\<lambda>record. regex_test E (''^'' @ test @ ''$'') record) mxRecords)
        (mx_match p))"

definition find_template :: "env \<Rightarrow> string \<Rightarrow> string list \<Rightarrow> mc_provider option" where
  "find_template E domain mxRecords =
     find (matches_provider E domain mxRecords) (MailcoreProviderSettings E)"

text \<open>\<^verbatim>\<open>(servers || [])[0] || {}\<close>\<close>

definition first_server :: "mc_server list \<Rightarrow> mc_server" where
  "first_server xs =
     (case xs of
        [] \<Rightarrow> \<lparr>mc_hostname = Undefined, mc_port = Undefined, mc_starttls = Undefined,
               mc_ssl = Undefined, mc_tls = Undefined\<rparr>
      | s # rest \<Rightarrow> s)"

text \<open>\<^verbatim>\<open>s.starttls ? 'STARTTLS' : s.ssl || s.tls ? 'SSL / TLS' : 'none'\<close>\<close>

definition mc_security :: "mc_server \<Rightarrow> jsval" where
  "mc_security s =
     (if truthy (mc_starttls s) then JStr ''STARTTLS''
      else if truthy (js_or (mc_ssl s) (mc_tls s)) then JStr ''SSL / TLS''
      else JStr ''none'')"

definition mailcore_defaults ::
  "account \<Rightarrow> account \<Rightarrow> string \<Rightarrow> mc_provider \<Rightarrow> js_error + settings" where
  "mailcore_defaults account populated domain template =
     (let imap = first_server (servers_imap template);
          smtp = first_server (servers_smtp template)
      in
        bindE (replace_js (js_or (mc_hostname imap) (JStr [])) ''{domain}'' domain) (\<lambda>imap_host.
        bindE (replace_js (js_or (mc_hostname smtp) (JStr [])) ''{domain}'' domain) (\<lambda>smtp_host.
          Inr
            [''imap_host'' \<mapsto> imap_host,
             ''imap_port'' \<mapsto> mc_port imap,
             ''imap_username'' \<mapsto> usernameWithFormat account (JStr ''email''),
             ''imap_password'' \<mapsto> sget (settings populated) ''imap_password'',
             ''imap_security'' \<mapsto> mc_security imap,
             ''imap_allow_insecure_ssl'' \<mapsto> JBool False,
             ''smtp_host'' \<mapsto> smtp_host,
             ''smtp_port'' \<mapsto> mc_port smtp,
             ''smtp_username'' \<mapsto> usernameWithFormat account (JStr ''email''),
             ''smtp_password'' \<mapsto>
               js_or (sget (settings populated) ''smtp_password'')
                 (sget (settings populated) ''imap_password''),
             ''smtp_security'' \<mapsto> mc_security smtp,
             ''smtp_allow_insecure_ssl'' \<mapsto> JBool False,
             ''container_folder'' \<mapsto> JStr []])))"

definition structured_path :: "account \<Rightarrow> account \<Rightarrow> string \<Rightarrow> mc_provider \<Rightarrow> js_error + account" where
  "structured_path account populated domain template =
     bindE (mailcore_defaults account populated domain template) (\<lambda>defaults.
       Inr (populated\<lparr>settings := Object_assign defaults (settings populated)\<rparr>))"

subsection \<open>Preset table\<close>

definition fallback_template :: "string \<Rightarrow> mstemplate" where
  "fallback_template domain =
     \<lparr>ms_alias = Undefined,
      ms_imap_host = JStr (''imap.'' @ domain),
      ms_imap_port = Undefined,
      ms_imap_security = Undefined,
      ms_imap_user_format = JStr ''email'',
      ms_imap_allow_insecure_ssl = Undefined,
      ms_smtp_host = JStr (''smtp.'' @ domain),
      ms_smtp_port = Undefined,
      ms_smtp_security = Undefined,
      ms_smtp_user_format = JStr ''email'',
      ms_smtp_allow_insecure_ssl = Undefined,
      ms_container_folder = JStr []\<rparr>"

text \<open>
  The template the preset path works with; \<open>None\<close> is \<open>undefined\<close>, the value of an alias
  that names no entry of the table.
\<close>

definition select_mstemplate :: "env \<Rightarrow> string \<Rightarrow> account \<Rightarrow> mstemplate option" where
  "select_mstemplate E domain account =
     (case (case MailspringProviderSettings E domain of
              Some t \<Rightarrow> Some t
            | None \<Rightarrow> MailspringProviderSettings E (provider account)) of
        Some t \<Rightarrow>
          if truthy (ms_alias t) then MailspringProviderSettings E (toString (ms_alias t))
          else Some t
      | None \<Rightarrow> Some (fallback_template domain))"

text \<open>Port and security of IMAP, as a pair \<open>(imap_port, imap_security)\<close>.\<close>

definition imap_port_security :: "mstemplate \<Rightarrow> jsval \<times> jsval" where
  "imap_port_security t =
     (let imap_port = Number (ms_imap_port t);
          imap_security = ms_imap_security t
      in
        if \<not> truthy imap_security \<and> \<not> truthy imap_port then (JNum 993, JStr ''SSL / TLS'')
        else if \<not> truthy imap_security \<and> truthy imap_port
        then (imap_port, if imap_port = JNum 993 then JStr ''SSL / TLS'' else JStr ''none'')
        else if truthy imap_security \<and> \<not> truthy imap_port
        then (if imap_security = JStr ''SSL / TLS'' then JNum 993 else JNum 143, imap_security)
        else (imap_port, imap_security))"

text \<open>Port and security of SMTP, as a pair \<open>(smtp_port, smtp_security)\<close>.\<close>

definition smtp_port_security :: "mstemplate \<Rightarrow> jsval \<times> jsval" where
  "smtp_port_security t =
     (let smtp_port = Number (ms_smtp_port t);
          smtp_security = ms_smtp_security t
      in
        if \<not> truthy smtp_security \<and> \<not> truthy smtp_port then (JNum 465, JStr ''SSL / TLS'')
        else if \<not> truthy smtp_security \<and> truthy smtp_port
        then (smtp_port,
              if smtp_port = JNum 587 then JStr ''STARTTLS''
              else if smtp_port = JNum 465 then JStr ''SSL / TLS''
              else JStr ''none'')
        else if truthy smtp_security \<and> \<not> truthy smtp_port
        then (if smtp_security = JStr ''STARTTLS'' then JNum 587
              else if smtp_security = JStr ''SSL / TLS'' then JNum 465
              else JNum 25,
              smtp_security)
        else (smtp_port, smtp_security))"

definition mailspring_defaults ::
  "account \<Rightarrow> account \<Rightarrow> string \<Rightarrow> mstemplate \<Rightarrow> js_error + settings" where
  "mailspring_defaults account populated domain t =
     bindE (replace_js (ms_imap_host t) ''%EMAILDOMAIN%'' domain) (\<lambda>imap_host.
     bindE (replace_js (ms_smtp_host t) ''%EMAILDOMAIN%'' domain) (\<lambda>smtp_host.
       Inr
         [''imap_host'' \<mapsto> imap_host,
          ''imap_port'' \<mapsto> fst (imap_port_security t),
          ''imap_username'' \<mapsto> usernameWithFormat account (ms_imap_user_format t),
          ''imap_password'' \<mapsto> sget (settings populated) ''imap_password'',
          ''imap_security'' \<mapsto> snd (imap_port_security t),
          ''imap_allow_insecure_ssl'' \<mapsto> js_or (ms_imap_allow_insecure_ssl t) (JBool False),
          ''smtp_host'' \<mapsto> smtp_host,
          ''smtp_port'' \<mapsto> fst (smtp_port_security t),
          ''smtp_username'' \<mapsto> usernameWithFormat account (ms_smtp_user_format t),
          ''smtp_password'' \<mapsto>
            js_or (sget (settings populated) ''smtp_password'')
              (sget (settings populated) ''imap_password''),
          ''smtp_security'' \<mapsto> snd (smtp_port_security t),
          ''smtp_allow_insecure_ssl'' \<mapsto> js_or (ms_smtp_allow_insecure_ssl t) (JBool False),
          ''container_folder'' \<mapsto> ms_container_folder t]))"

text \<open>The container folder of ProtonMail-like deployments, set after the merge.\<close>

definition container_folder_override :: "string \<Rightarrow> settings \<Rightarrow> settings" where
  "container_folder_override containerFolderDefault s =
     (if containerFolderDefault \<noteq> ''Mailspring'' \<and>
         (sget s ''container_folder'' = JStr [] \<or> sget s ''container_folder'' = Undefined)
      then s(''container_folder'' \<mapsto> JStr containerFolderDefault)
      else s)"

definition preset_path :: "env \<Rightarrow> account \<Rightarrow> account \<Rightarrow> string \<Rightarrow> js_error + account" where
  "preset_path E account populated domain =
     (case select_mstemplate E domain account of
        None \<Rightarrow> Inl TypeError
      | Some t \<Rightarrow>
          bindE (mailspring_defaults account populated domain t) (\<lambda>defaults.
            Inr (populated\<lparr>settings :=
              container_folder_override (containerFolderDefaultGetter E)
                (Object_assign defaults (settings populated))\<rparr>)))"

subsection \<open>The fallback chain\<close>

definition expandAccountWithCommonSettings ::
  "env \<Rightarrow> account \<Rightarrow> io_event list \<times> (js_error + account)" where
  "expandAccountWithCommonSettings E account =
     (let domain = domain_of (emailAddress account);
          dns = mxRecordsForDomain E domain
      in
        case snd dns of
          Inl e \<Rightarrow> (fst dns, Inl e)
        | Inr mxRecords \<Rightarrow>
            let populated = clone account in
            (case find_template E domain mxRecords of
               Some template \<Rightarrow> (fst dns, structured_path account populated domain template)
             | None \<Rightarrow>
                 let tried = TryThunderbirdAutoconfig E populated account in
                 (case snd tried of
                    Inl e \<Rightarrow> (fst dns @ fst tried, Inl e)
                  | Inr (Some p) \<Rightarrow> (fst dns @ fst tried, Inr p)
                  | Inr None \<Rightarrow> (fst dns @ fst tried, preset_path E account populated domain))))"

text \<open>The run of \<open>expandAccountWithCommonSettings\<close> reaches the preset table.\<close>

definition preset_path_taken :: "env \<Rightarrow> account \<Rightarrow> bool" where
  "preset_path_taken E account =
     (let domain = domain_of (emailAddress account) in
      case snd (mxRecordsForDomain E domain) of
        Inl e \<Rightarrow> False
      | Inr mxRecords \<Rightarrow>
          find_template E domain mxRecords = None \<and>
          snd (TryThunderbirdAutoconfig E (clone account) account) = Inr None)"

section \<open>Finalizer\<close>

text \<open>\<^verbatim>\<open>if (s[k]) { s[k] = s[k].trim(); }\<close>\<close>

definition trim_host :: "string \<Rightarrow> settings \<Rightarrow> js_error + settings" where
  "trim_host k s =
     (if truthy (sget s k) then bindE (trim_js (sget s k)) (\<lambda>h. Inr (s(k \<mapsto> h))) else Inr s)"

text \<open>\<^verbatim>\<open>if (s[k]) { s[k] /= 1; }\<close>\<close>

definition coerce_port :: "string \<Rightarrow> settings \<Rightarrow> settings" where
  "coerce_port k s = (if truthy (sget s k) then s(k \<mapsto> Number (sget s k)) else s)"

text \<open>The account as it is handed to the validator process.\<close>

definition finalize_account :: "env \<Rightarrow> account \<Rightarrow> js_error + account" where
  "finalize_account E account =
     bindE (trim_host ''imap_host'' (settings account)) (\<lambda>s1.
     bindE (trim_host ''smtp_host'' s1) (\<lambda>s2.
       let new_id = idForAccount (sha256_hex E) (JStr (emailAddress account)) s2;
           s3 = s2(''username'' \<mapsto> js_or (sget s2 ''username'') (sget s2 ''email''));
           s4 = coerce_port ''imap_port'' s3;
           s5 = coerce_port ''smtp_port'' s4;
           new_label =
             (if acct_label account \<noteq> [] \<and> js_includes (acct_label account) CHR ''@''
              then emailAddress account else acct_label account)
       in Inr (account\<lparr>settings := s5, acct_id := new_id, acct_label := new_label\<rparr>)))"

definition finalizeAndValidateAccount ::
  "env \<Rightarrow> account \<Rightarrow> io_event list \<times> (js_error + account)" where
  "finalizeAndValidateAccount E account =
     (case finalize_account E account of
        Inl e \<Rightarrow> ([], Inl e)
      | Inr a \<Rightarrow>
          ([ValidatorTest],
           case proc_test E a of
             Some e \<Rightarrow> Inl e
           | None \<Rightarrow> Inr (a\<lparr>authedAt := Some (now E)\<rparr>)))"

section \<open>OAuth account builders\<close>

text \<open>Sequencing of two steps that perform input or output: the second runs if the first resolves.\<close>

definition bindIO ::
  "io_event list \<times> (js_error + 'a) \<Rightarrow> ('a \<Rightarrow> io_event list \<times> (js_error + 'b)) \<Rightarrow>
   io_event list \<times> (js_error + 'b)" where
  "bindIO m f =
     (case snd m of
        Inl e \<Rightarrow> (fst m, Inl e)
      | Inr x \<Rightarrow> (fst m @ fst (f x), snd (f x)))"

text \<open>
  The form is handed to \<open>fetch_post\<close> as the list of its fields, before the URL encoding
  the function applies to them. A body that is not JSON makes \<^verbatim>\<open>resp.json()\<close> reject.
\<close>

definition fetchPostWithFormBody ::
  "env \<Rightarrow> string \<Rightarrow> (string \<times> string) list \<Rightarrow> io_event list \<times> (js_error + jsval)" where
  "fetchPostWithFormBody E url form =
     ([HttpPost url],
      case fetch_post E url form of
        Inl e \<Rightarrow> Inl e
      | Inr resp \<Rightarrow>
          (case j_json resp of
             None \<Rightarrow> Inl SyntaxError
           | Some j \<Rightarrow>
               let json = js_or j (JObj []) in
               if \<not> ok (j_status resp)
               then Inl (OAuthExchangeError (j_status resp) (j_statusText resp) json)
               else Inr json))"

text \<open>The profile request: \<^verbatim>\<open>fetch(url, {headers: {Authorization: `Bearer ${access_token}`}})\<close>.\<close>

definition fetch_profile :: "env \<Rightarrow> string \<Rightarrow> jsval \<Rightarrow> io_event list \<times> (js_error + jsval)" where
  "fetch_profile E url access_token =
     ([HttpGet url],
      case fetch_bearer E url (''Bearer '' @ toString access_token) of
        Inl e \<Rightarrow> Inl e
      | Inr meResp \<Rightarrow>
          (case j_json meResp of
             None \<Rightarrow> Inl SyntaxError
           | Some me \<Rightarrow>
               if \<not> ok (j_status meResp)
               then Inl (ProfileError (j_status meResp) (j_statusText meResp) me)
               else Inr me))"

text \<open>
  \<^verbatim>\<open>expandAccountWithCommonSettings(new Account({..., emailAddress: v, ...}))\<close> for a value
  \<open>v\<close> of the profile: only a string has the \<^verbatim>\<open>split\<close> the synthesizer starts with.
\<close>

definition expand_new_account ::
  "env \<Rightarrow> jsval \<Rightarrow> jsval \<Rightarrow> string \<Rightarrow> settings \<Rightarrow> io_event list \<times> (js_error + account)" where
  "expand_new_account E nm email prov st =
     (case email of
        JStr e \<Rightarrow>
          expandAccountWithCommonSettings E
            (new_Account (initial_id E) (initial_label E) nm e prov st)
      | _ \<Rightarrow> ([], Inl TypeError))"

definition buildGmailAccountFromAuthResponse ::
  "env \<Rightarrow> string \<Rightarrow> io_event list \<times> (js_error + account)" where
  "buildGmailAccountFromAuthResponse E code =
     bindIO (fetchPostWithFormBody E ''https://www.googleapis.com/oauth2/v4/token''
               [(''code'', code),
                (''client_id'', GMAIL_CLIENT_ID E),
                (''client_secret'', GMAIL_CLIENT_SECRET E),
                (''redirect_uri'', ''http://127.0.0.1:'' @ string_of_nat (LOCAL_SERVER_PORT E)),
                (''grant_type'', ''authorization_code'')]) (\<lambda>json.
     bindIO ([], js_get json ''access_token'') (\<lambda>access_token.
     bindIO ([], js_get json ''refresh_token'') (\<lambda>refresh_token.
     bindIO (fetch_profile E ''https://www.googleapis.com/oauth2/v1/userinfo?alt=json'' access_token)
       (\<lambda>me.
     bindIO ([], js_get me ''name'') (\<lambda>me_name.
     bindIO ([], js_get me ''email'') (\<lambda>me_email.
     bindIO (expand_new_account E me_name me_email ''gmail''
               [''refresh_client_id'' \<mapsto> JStr (GMAIL_CLIENT_ID E),
                ''refresh_token'' \<mapsto> refresh_token]) (\<lambda>account.
       finalizeAndValidateAccount E
         (account\<lparr>acct_id := idForAccount (sha256_hex E) me_email (settings account)\<rparr>))))))))"

definition startsWith :: "string \<Rightarrow> string \<Rightarrow> bool" where
  "startsWith s p = (take (length p) s = p)"

definition buildMicrosoftAccountFromAuthResponse ::
  "env \<Rightarrow> string \<Rightarrow> string \<Rightarrow> io_event list \<times> (js_error + account)" where
  "buildMicrosoftAccountFromAuthResponse E code prov =
     bindIO (fetchPostWithFormBody E ''https://login.microsoftonline.com/common/oauth2/v2.0/token''
               [(''code'', code),
                (''scope'',
                   join '' ''
                     (filter (\<lambda>f. \<not> startsWith f ''https://outlook.office.com'') (O365_SCOPES E))),
                (''client_id'', O365_CLIENT_ID E),
                (''code_verifier'', CODE_VERIFIER E),
                (''grant_type'', ''authorization_code''),
                (''redirect_uri'',
                   ''http://localhost:'' @ string_of_nat (LOCAL_SERVER_PORT E) @ ''/desktop'')])
       (\<lambda>json.
     bindIO ([], js_get json ''access_token'') (\<lambda>access_token.
     bindIO ([], js_get json ''refresh_token'') (\<lambda>refresh_token.
     bindIO (fetch_profile E ''https://graph.microsoft.com/v1.0/me'' access_token) (\<lambda>me.
     bindIO ([], js_get me ''mail'') (\<lambda>me_mail.
       if \<not> truthy me_mail then ([], Inl NoMailboxError)
       else
         bindIO ([], js_get me ''displayName'') (\<lambda>me_displayName.
         bindIO (expand_new_account E me_displayName me_mail prov
                   [''refresh_client_id'' \<mapsto> JStr (O365_CLIENT_ID E),
                    ''refresh_token'' \<mapsto> refresh_token]) (\<lambda>account.
         bindIO ([], js_get me ''email'') (\<lambda>me_email.
           finalizeAndValidateAccount E
             (account\<lparr>acct_id := idForAccount (sha256_hex E) me_email (settings account)\<rparr>)))))))))"

definition buildO365AccountFromAuthResponse ::
  "env \<Rightarrow> string \<Rightarrow> io_event list \<times> (js_error + account)" where
  "buildO365AccountFromAuthResponse E code = buildMicrosoftAccountFromAuthResponse E code ''office365''"

definition buildOutlookAccountFromAuthResponse ::
  "env \<Rightarrow> string \<Rightarrow> io_event list \<times> (js_error + account)" where
  "buildOutlookAccountFromAuthResponse E code = buildMicrosoftAccountFromAuthResponse E code ''outlook''"

section \<open>An environment for evaluation\<close>

text \<open>
  A world in which nothing is found: DNS fails, both tables are empty, every request is
  a network failure, the deployment's container folder is the sentinel, and the
  validator accepts. The evaluations below start from it and change what they need.
\<close>

definition offline_env :: env where
  "offline_env =
     \<lparr>sha256_hex = (\<lambda>s. replicate 64 (CHR ''0'')),
      resolveMx = (\<lambda>d. Inl NetworkError),
      regex_test = (\<lambda>src s. False),
      MailcoreProviderSettings = [],
      MailspringProviderSettings = Map.empty,
      fetch = (\<lambda>url. None),
      parseStringPromise = (\<lambda>b. None),
      containerFolderDefaultGetter = ''Mailspring'',
      fetch_post = (\<lambda>url form. Inl NetworkError),
      fetch_bearer = (\<lambda>url auth. Inl NetworkError),
      GMAIL_CLIENT_ID = ''gmail-client'',
      GMAIL_CLIENT_SECRET = ''gmail-secret'',
      O365_CLIENT_ID = ''o365-client'',
      O365_SCOPES = [],
      CODE_VERIFIER = ''verifier'',
      LOCAL_SERVER_PORT = 12141,
      initial_id = ''local-0'',
      initial_label = [],
      proc_test = (\<lambda>a. None),
      now = 0\<rparr>"

section \<open>Properties\<close>

subsection \<open>Strings and results\<close>

lemma split_nonempty: "split c s \<noteq> []"
  by (induction s) (auto split: list.splits)

lemma bindE_Inr [simp]: "bindE (Inr x) f = f x"
  by (simp add: bindE_def)

lemma bindE_Inl [simp]: "bindE (Inl e) f = Inl e"
  by (simp add: bindE_def)

subsection \<open>Identity hashing\<close>

text \<open>
  Claim C2. \<open>idForAccount\<close> is a function of the email address and of the four fields
  \<open>imap_username\<close>, \<open>imap_host\<close>, \<open>smtp_username\<close>, \<open>smtp_host\<close> only: two settings objects
  that agree on these four give the same id for the same address, whatever their other
  fields hold. The id is the first 8 characters of the digest of the address followed by
  the JSON of the four fields; for a digest of 64 hexadecimal characters, as SHA-256
  gives, these are 8 hexadecimal characters.
\<close>

theorem idForAccount_four_fields:
  "sget s1 ''imap_username'' = sget s2 ''imap_username'' \<and>
   sget s1 ''imap_host'' = sget s2 ''imap_host'' \<and>
   sget s1 ''smtp_username'' = sget s2 ''smtp_username'' \<and>
   sget s1 ''smtp_host'' = sget s2 ''smtp_host'' \<Longrightarrow>
   idForAccount H (JStr e) s1 = idForAccount H (JStr e) s2 \<and>
   idForAccount H (JStr e) s1 =
     take 8 (H (e @ JSON_stringify (JObj
       [(''imap_username'', sget s1 ''imap_username''),
        (''imap_host'', sget s1 ''imap_host''),
        (''smtp_username'', sget s1 ''smtp_username''),
        (''smtp_host'', sget s1 ''smtp_host'')]))) \<and>
   ((\<forall>x. length (H x) = 64 \<and> set (H x) \<subseteq> set ''0123456789abcdef'') \<longrightarrow>
      length (idForAccount H (JStr e) s1) = 8 \<and>
      set (idForAccount H (JStr e) s1) \<subseteq> set ''0123456789abcdef'')"
  unfolding idForAccount_def idString_def settingsThatCouldChangeMailContents_def
  apply (intro conjI impI)
     apply simp
    apply simp
   apply simp
  apply (meson order_trans set_take_subset)
  done

theorem idForAccount_four_fields_witness:
  "idForAccount (\<lambda>x. replicate 64 (CHR ''0'')) (JStr ''ann@example.com'')
     [''imap_username'' \<mapsto> JStr ''ann@example.com'', ''imap_host'' \<mapsto> JStr ''imap.example.com'',
      ''smtp_username'' \<mapsto> JStr ''ann@example.com'', ''smtp_host'' \<mapsto> JStr ''smtp.example.com'',
      ''imap_password'' \<mapsto> JStr ''secret'', ''imap_port'' \<mapsto> JNum 993,
      ''imap_security'' \<mapsto> JStr ''SSL / TLS'']
   = idForAccount (\<lambda>x. replicate 64 (CHR ''0'')) (JStr ''ann@example.com'')
     [''imap_username'' \<mapsto> JStr ''ann@example.com'', ''imap_host'' \<mapsto> JStr ''imap.example.com'',
      ''smtp_username'' \<mapsto> JStr ''ann@example.com'', ''smtp_host'' \<mapsto> JStr ''smtp.example.com'',
      ''imap_password'' \<mapsto> JStr ''other'', ''imap_port'' \<mapsto> JNum 143,
      ''smtp_port'' \<mapsto> JNum 25]
   \<and> length (idForAccount (\<lambda>x. replicate 64 (CHR ''0'')) (JStr ''ann@example.com'')
     [''imap_username'' \<mapsto> JStr ''ann@example.com'', ''imap_host'' \<mapsto> JStr ''imap.example.com'',
      ''smtp_username'' \<mapsto> JStr ''ann@example.com'', ''smtp_host'' \<mapsto> JStr ''smtp.example.com'',
      ''imap_password'' \<mapsto> JStr ''secret'', ''imap_port'' \<mapsto> JNum 993,
      ''imap_security'' \<mapsto> JStr ''SSL / TLS'']) = 8"
proof -
  let ?s1 = "[''imap_username'' \<mapsto> JStr ''ann@example.com'', ''imap_host'' \<mapsto> JStr ''imap.example.com'',
      ''smtp_username'' \<mapsto> JStr ''ann@example.com'', ''smtp_host'' \<mapsto> JStr ''smtp.example.com'',
      ''imap_password'' \<mapsto> JStr ''secret'', ''imap_port'' \<mapsto> JNum 993,
      ''imap_security'' \<mapsto> JStr ''SSL / TLS'']"
  let ?s2 = "[''imap_username'' \<mapsto> JStr ''ann@example.com'', ''imap_host'' \<mapsto> JStr ''imap.example.com'',
      ''smtp_username'' \<mapsto> JStr ''ann@example.com'', ''smtp_host'' \<mapsto> JStr ''smtp.example.com'',
      ''imap_password'' \<mapsto> JStr ''other'', ''imap_port'' \<mapsto> JNum 143,
      ''smtp_port'' \<mapsto> JNum 25]"
  let ?H = "\<lambda>x::string. replicate 64 (CHR ''0'')"
  have h: "sget ?s1 ''imap_username'' = sget ?s2 ''imap_username'' \<and>
           sget ?s1 ''imap_host'' = sget ?s2 ''imap_host'' \<and>
           sget ?s1 ''smtp_username'' = sget ?s2 ''smtp_username'' \<and>
           sget ?s1 ''smtp_host'' = sget ?s2 ''smtp_host''"
    by (simp add: sget_def)
  have d: "\<forall>x. length (?H x) = 64 \<and> set (?H x) \<subseteq> set ''0123456789abcdef''"
    by simp
  from idForAccount_four_fields [OF h, of ?H "''ann@example.com''"] d
  show ?thesis by blast
qed

lemma hd_split: "hd (split c s) = takeWhile (\<lambda>x. x \<noteq> c) s"
  by (induction s) (auto split: list.splits simp: split_nonempty)

lemma split_no_sep: "c \<notin> set s \<Longrightarrow> split c s = [s]"
  by (induction s) auto

lemma split_single: "split c s = [p] \<Longrightarrow> c \<notin> set s"
  by (induction s arbitrary: p) (auto split: if_splits list.splits simp: split_nonempty)

lemma last_split: "last (split c s) = rev (takeWhile (\<lambda>x. x \<noteq> c) (rev s))"
proof (induction s)
  case Nil
  then show ?case by simp
next
  case (Cons x xs)
  show ?case
  proof (cases "c \<in> set xs")
    case True
    then have tw: "takeWhile (\<lambda>x. x \<noteq> c) (rev xs @ [x]) = takeWhile (\<lambda>x. x \<noteq> c) (rev xs)"
      by (intro takeWhile_append1 [of c]) auto
    from True split_no_sep split_single [of c xs] obtain p q ps where sp: "split c xs = p # q # ps"
      by (cases "split c xs"; cases "tl (split c xs)") (auto simp: split_nonempty)
    show ?thesis using Cons tw sp by auto
  next
    case False
    then have "split c xs = [xs]" by (rule split_no_sep)
    moreover from False have "takeWhile (\<lambda>x. x \<noteq> c) (rev xs) = rev xs"
      by (intro takeWhile_eq_all_conv [THEN iffD2]) auto
    ultimately show ?thesis using False by (auto simp: takeWhile_append)
  qed
qed

subsection \<open>Server entries of an autoconfig document\<close>

text \<open>
  Claim C8. For a server entry of an autoconfig document (any value whose properties can
  be read), the derived username is the local part of the email address, the text before
  the first \<open>@\<close>, when the entry's \<open>username\<close> is the literal \<^verbatim>\<open>%EMAILLOCALPART%\<close>, and the full
  email address in every other case; the derived security is \<open>None\<close> for the socket type
  \<open>plain\<close>, \<open>STARTTLS\<close> for \<open>STARTTLS\<close>, \<open>SSL / TLS\<close> for \<open>SSL\<close>, and \<open>STARTTLS\<close> for any other
  or missing socket type.
\<close>

theorem extractServerDetails_username_security:
  "js_get server ''username'' = Inr u \<Longrightarrow> js_get server ''socketType'' = Inr st \<Longrightarrow>
   \<exists>d. extractServerDetails server account = Inr d \<and>
     (u = JStr ''%EMAILLOCALPART%'' \<longrightarrow>
        username d = takeWhile (\<lambda>c. c \<noteq> CHR ''@'') (emailAddress account)) \<and>
     (u \<noteq> JStr ''%EMAILLOCALPART%'' \<longrightarrow> username d = emailAddress account) \<and>
     (st = JStr ''plain'' \<longrightarrow> security d = ''None'') \<and>
     (st = JStr ''STARTTLS'' \<longrightarrow> security d = ''STARTTLS'') \<and>
     (st = JStr ''SSL'' \<longrightarrow> security d = ''SSL / TLS'') \<and>
     (st \<noteq> JStr ''plain'' \<and> st \<noteq> JStr ''STARTTLS'' \<and> st \<noteq> JStr ''SSL'' \<longrightarrow>
        security d = ''STARTTLS'')"
  by (cases server) (auto simp: extractServerDetails_def hd_split)

theorem extractServerDetails_username_security_witness:
  "extractServerDetails
     (JObj [(''$'', JObj [(''type'', JStr ''imap'')]), (''hostname'', JStr ''mail.example.com''),
            (''port'', JStr ''993''), (''socketType'', JStr ''SSL''),
            (''username'', JStr ''%EMAILLOCALPART%'')])
     (new_Account [] [] Undefined ''ann@example.com'' [] Map.empty)
   = Inr \<lparr>host = JStr ''mail.example.com'', port = JStr ''993'', username = ''ann'',
          security = ''SSL / TLS''\<rparr>"
  using extractServerDetails_username_security
    [of "JObj [(''$'', JObj [(''type'', JStr ''imap'')]), (''hostname'', JStr ''mail.example.com''),
            (''port'', JStr ''993''), (''socketType'', JStr ''SSL''),
            (''username'', JStr ''%EMAILLOCALPART%'')]"
        "JStr ''%EMAILLOCALPART%''" "JStr ''SSL''"
        "new_Account [] [] Undefined ''ann@example.com'' [] Map.empty"]
  by (simp add: extractServerDetails_def new_Account_def)

lemmas string_eval =
  toLowerCase_def toLowerCase_char_def char_of_def bit_Suc_0_iff domain_of_def trim_def
  is_space_def

lemma toLowerCase_no_upper:
  "\<forall>c \<in> set (toLowerCase s). \<not> (65 \<le> (of_char c :: nat) \<and> (of_char c :: nat) \<le> 90)"
  by (auto simp: toLowerCase_def toLowerCase_char_def)

subsection \<open>MX resolver\<close>

text \<open>
  Claim C9. \<open>mxRecordsForDomain\<close> never rejects: its promise always resolves. On a lookup
  error it resolves to the empty list; on success it resolves to the exchange host names
  in lower case, one per record and in the order of the records.
\<close>

theorem mxRecordsForDomain_never_rejects:
  "(\<exists>xs. snd (mxRecordsForDomain E domain) = Inr xs) \<and>
   (\<forall>err. resolveMx E domain = Inl err \<longrightarrow> snd (mxRecordsForDomain E domain) = Inr []) \<and>
   (\<forall>addresses. resolveMx E domain = Inr addresses \<longrightarrow>
      (\<exists>xs. snd (mxRecordsForDomain E domain) = Inr xs \<and>
         length xs = length addresses \<and>
         (\<forall>i < length addresses. xs ! i = toLowerCase (exchange (addresses ! i)))))"
  by (auto simp: mxRecordsForDomain_def split: sum.splits)

theorem mxRecordsForDomain_never_rejects_witness:
  "snd (mxRecordsForDomain offline_env ''example.com'') = Inr [] \<and>
   snd (mxRecordsForDomain
          (offline_env\<lparr>resolveMx := (\<lambda>d. Inr [\<lparr>exchange = ''MX2.Example.COM'', priority = 20\<rparr>,
                                               \<lparr>exchange = ''mx1.example.com'', priority = 10\<rparr>])\<rparr>)
          ''example.com'') = Inr [''mx2.example.com'', ''mx1.example.com'']"
proof -
  let ?E = "offline_env\<lparr>resolveMx := (\<lambda>d. Inr [\<lparr>exchange = ''MX2.Example.COM'', priority = 20\<rparr>,
                                               \<lparr>exchange = ''mx1.example.com'', priority = 10\<rparr>])\<rparr>"
  have a: "resolveMx offline_env ''example.com'' = Inl NetworkError"
    by (simp add: offline_env_def)
  have b: "resolveMx ?E ''example.com'' = Inr [\<lparr>exchange = ''MX2.Example.COM'', priority = 20\<rparr>,
                                               \<lparr>exchange = ''mx1.example.com'', priority = 10\<rparr>]"
    by simp
  from mxRecordsForDomain_never_rejects [of offline_env "''example.com''"] a
  have 1: "snd (mxRecordsForDomain offline_env ''example.com'') = Inr []" by blast
  from mxRecordsForDomain_never_rejects [of ?E "''example.com''"] b
  obtain xs where xs: "snd (mxRecordsForDomain ?E ''example.com'') = Inr xs" "length xs = 2"
    "\<forall>i < 2. xs ! i = toLowerCase (exchange ([\<lparr>exchange = ''MX2.Example.COM'', priority = 20\<rparr>,
                                               \<lparr>exchange = ''mx1.example.com'', priority = 10\<rparr>] ! i))"
    by auto
  from xs(3) have "xs ! 0 = toLowerCase ''MX2.Example.COM''" "xs ! 1 = toLowerCase ''mx1.example.com''"
    by (auto simp: numeral_2_eq_2 less_Suc_eq)
  then have "xs ! 0 = ''mx2.example.com''" "xs ! 1 = ''mx1.example.com''"
    by (simp_all add: string_eval)
  with xs(2) have "xs = [''mx2.example.com'', ''mx1.example.com'']"
    by (cases xs; cases "tl xs") auto
  with 1 xs(1) show ?thesis by simp
qed

subsection \<open>Port and security inference\<close>

text \<open>
  Claim C3. On the preset-table path the defaults are inferred for IMAP and for SMTP
  independently, and reach the result in every field the account does not already carry
  (a field it carries wins in the merge): with neither security nor port in the
  template the result is \<open>SSL / TLS\<close> with port 993 (IMAP) or 465 (SMTP); with a port and no
  security, the IMAP security is \<open>SSL / TLS\<close> exactly when the port is 993 and \<open>none\<close>
  otherwise, the SMTP security is \<open>STARTTLS\<close> for 587, \<open>SSL / TLS\<close> for 465 and \<open>none\<close>
  otherwise; with a security and no port, the IMAP port is 993 for \<open>SSL / TLS\<close> and 143
  otherwise, the SMTP port is 587 for \<open>STARTTLS\<close>, 465 for \<open>SSL / TLS\<close> and 25 otherwise.
  A value is present when it is truthy, as the code tests it: a security that is a
  non-empty string, a port whose \<^verbatim>\<open>Number(...)\<close> is a number other than 0.
\<close>

theorem preset_path_port_security:
  assumes sel: "select_mstemplate E domain account = Some t"
      and res: "preset_path E account populated domain = Inr result"
  shows
   "\<exists>defaults.
      mailspring_defaults account populated domain t = Inr defaults \<and>
      settings result =
        container_folder_override (containerFolderDefaultGetter E)
          (Object_assign defaults (settings populated)) \<and>
      (\<forall>k. k \<notin> dom (settings populated) \<and> k \<noteq> ''container_folder'' \<longrightarrow>
         sget (settings result) k = sget defaults k) \<and>
      (\<not> truthy (ms_imap_security t) \<and> \<not> truthy (Number (ms_imap_port t)) \<longrightarrow>
         sget defaults ''imap_security'' = JStr ''SSL / TLS'' \<and>
         sget defaults ''imap_port'' = JNum 993) \<and>
      (\<not> truthy (ms_imap_security t) \<and> truthy (Number (ms_imap_port t)) \<longrightarrow>
         sget defaults ''imap_port'' = Number (ms_imap_port t) \<and>
         sget defaults ''imap_security'' =
           (if Number (ms_imap_port t) = JNum 993 then JStr ''SSL / TLS'' else JStr ''none'')) \<and>
      (truthy (ms_imap_security t) \<and> \<not> truthy (Number (ms_imap_port t)) \<longrightarrow>
         sget defaults ''imap_security'' = ms_imap_security t \<and>
         sget defaults ''imap_port'' =
           (if ms_imap_security t = JStr ''SSL / TLS'' then JNum 993 else JNum 143)) \<and>
      (\<not> truthy (ms_smtp_security t) \<and> \<not> truthy (Number (ms_smtp_port t)) \<longrightarrow>
         sget defaults ''smtp_security'' = JStr ''SSL / TLS'' \<and>
         sget defaults ''smtp_port'' = JNum 465) \<and>
      (\<not> truthy (ms_smtp_security t) \<and> truthy (Number (ms_smtp_port t)) \<longrightarrow>
         sget defaults ''smtp_port'' = Number (ms_smtp_port t) \<and>
         sget defaults ''smtp_security'' =
           (if Number (ms_smtp_port t) = JNum 587 then JStr ''STARTTLS''
            else if Number (ms_smtp_port t) = JNum 465 then JStr ''SSL / TLS''
            else JStr ''none'')) \<and>
      (truthy (ms_smtp_security t) \<and> \<not> truthy (Number (ms_smtp_port t)) \<longrightarrow>
         sget defaults ''smtp_security'' = ms_smtp_security t \<and>
         sget defaults ''smtp_port'' =
           (if ms_smtp_security t = JStr ''STARTTLS'' then JNum 587
            else if ms_smtp_security t = JStr ''SSL / TLS'' then JNum 465
            else JNum 25))"
proof -
  from sel res obtain defaults where
    d: "mailspring_defaults account populated domain t = Inr defaults" and
    r: "settings result = container_folder_override (containerFolderDefaultGetter E)
          (Object_assign defaults (settings populated))"
    by (auto simp: preset_path_def bindE_def split: sum.splits)
  have get: "sget (settings result) k = sget defaults k"
    if "k \<notin> dom (settings populated) \<and> k \<noteq> ''container_folder''" for k
    using that r
    by (auto simp: container_folder_override_def Object_assign_def sget_def map_add_def
        split: option.splits)
  from d have
    ip: "sget defaults ''imap_port'' = fst (imap_port_security t)" and
    isec: "sget defaults ''imap_security'' = snd (imap_port_security t)" and
    sp: "sget defaults ''smtp_port'' = fst (smtp_port_security t)" and
    ss: "sget defaults ''smtp_security'' = snd (smtp_port_security t)"
    by (auto simp: mailspring_defaults_def bindE_def sget_def split: sum.splits)
  have tab: "(\<not> truthy (ms_imap_security t) \<and> \<not> truthy (Number (ms_imap_port t)) \<longrightarrow>
         sget defaults ''imap_security'' = JStr ''SSL / TLS'' \<and>
         sget defaults ''imap_port'' = JNum 993) \<and>
      (\<not> truthy (ms_imap_security t) \<and> truthy (Number (ms_imap_port t)) \<longrightarrow>
         sget defaults ''imap_port'' = Number (ms_imap_port t) \<and>
         sget defaults ''imap_security'' =
           (if Number (ms_imap_port t) = JNum 993 then JStr ''SSL / TLS'' else JStr ''none'')) \<and>
      (truthy (ms_imap_security t) \<and> \<not> truthy (Number (ms_imap_port t)) \<longrightarrow>
         sget defaults ''imap_security'' = ms_imap_security t \<and>
         sget defaults ''imap_port'' =
           (if ms_imap_security t = JStr ''SSL / TLS'' then JNum 993 else JNum 143)) \<and>
      (\<not> truthy (ms_smtp_security t) \<and> \<not> truthy (Number (ms_smtp_port t)) \<longrightarrow>
         sget defaults ''smtp_security'' = JStr ''SSL / TLS'' \<and>
         sget defaults ''smtp_port'' = JNum 465) \<and>
      (\<not> truthy (ms_smtp_security t) \<and> truthy (Number (ms_smtp_port t)) \<longrightarrow>
         sget defaults ''smtp_port'' = Number (ms_smtp_port t) \<and>
         sget defaults ''smtp_security'' =
           (if Number (ms_smtp_port t) = JNum 587 then JStr ''STARTTLS''
            else if Number (ms_smtp_port t) = JNum 465 then JStr ''SSL / TLS''
            else JStr ''none'')) \<and>
      (truthy (ms_smtp_security t) \<and> \<not> truthy (Number (ms_smtp_port t)) \<longrightarrow>
         sget defaults ''smtp_security'' = ms_smtp_security t \<and>
         sget defaults ''smtp_port'' =
           (if ms_smtp_security t = JStr ''STARTTLS'' then JNum 587
            else if ms_smtp_security t = JStr ''SSL / TLS'' then JNum 465
            else JNum 25))"
    using ip isec sp ss
    by (simp add: imap_port_security_def smtp_port_security_def Let_def)
  from d r get tab show ?thesis by blast
qed

theorem preset_path_port_security_witness:
  "(\<exists>r. preset_path offline_env
          (new_Account [] [] Undefined ''ann@unlisted.test'' [] Map.empty)
          (new_Account [] [] Undefined ''ann@unlisted.test'' [] Map.empty) ''unlisted.test'' = Inr r \<and>
        sget (settings r) ''imap_port'' = JNum 993 \<and>
        sget (settings r) ''imap_security'' = JStr ''SSL / TLS'' \<and>
        sget (settings r) ''smtp_port'' = JNum 465 \<and>
        sget (settings r) ''smtp_security'' = JStr ''SSL / TLS'') \<and>
   (\<exists>r. preset_path
          (offline_env\<lparr>MailspringProviderSettings :=
             [''example.com'' \<mapsto> (fallback_template ''example.com'')
                \<lparr>ms_imap_port := JNum 143, ms_smtp_port := JNum 587\<rparr>]\<rparr>)
          (new_Account [] [] Undefined ''ann@example.com'' [] Map.empty)
          (new_Account [] [] Undefined ''ann@example.com'' [] Map.empty) ''example.com'' = Inr r \<and>
        sget (settings r) ''imap_port'' = JNum 143 \<and>
        sget (settings r) ''imap_security'' = JStr ''none'' \<and>
        sget (settings r) ''smtp_port'' = JNum 587 \<and>
        sget (settings r) ''smtp_security'' = JStr ''STARTTLS'') \<and>
   (\<exists>r. preset_path
          (offline_env\<lparr>MailspringProviderSettings :=
             [''example.com'' \<mapsto> (fallback_template ''example.com'')
                \<lparr>ms_imap_security := JStr ''STARTTLS'', ms_smtp_security := JStr ''SSL / TLS''\<rparr>]\<rparr>)
          (new_Account [] [] Undefined ''ann@example.com'' [] Map.empty)
          (new_Account [] [] Undefined ''ann@example.com'' [] Map.empty) ''example.com'' = Inr r \<and>
        sget (settings r) ''imap_port'' = JNum 143 \<and>
        sget (settings r) ''imap_security'' = JStr ''STARTTLS'' \<and>
        sget (settings r) ''smtp_port'' = JNum 465 \<and>
        sget (settings r) ''smtp_security'' = JStr ''SSL / TLS'')"
proof -
  let ?a = "new_Account [] [] Undefined ''ann@unlisted.test'' [] Map.empty"
  let ?b = "new_Account [] [] Undefined ''ann@example.com'' [] Map.empty"
  let ?t2 = "(fallback_template ''example.com'')\<lparr>ms_imap_port := JNum 143, ms_smtp_port := JNum 587\<rparr>"
  let ?t3 = "(fallback_template ''example.com'')
                \<lparr>ms_imap_security := JStr ''STARTTLS'', ms_smtp_security := JStr ''SSL / TLS''\<rparr>"
  let ?E2 = "offline_env\<lparr>MailspringProviderSettings := [''example.com'' \<mapsto> ?t2]\<rparr>"
  let ?E3 = "offline_env\<lparr>MailspringProviderSettings := [''example.com'' \<mapsto> ?t3]\<rparr>"
  have free: "''imap_port'' \<notin> dom (settings ?a)" "''imap_security'' \<notin> dom (settings ?a)"
    "''smtp_port'' \<notin> dom (settings ?a)" "''smtp_security'' \<notin> dom (settings ?a)"
    "''imap_port'' \<notin> dom (settings ?b)" "''imap_security'' \<notin> dom (settings ?b)"
    "''smtp_port'' \<notin> dom (settings ?b)" "''smtp_security'' \<notin> dom (settings ?b)"
    by (simp_all add: new_Account_def)
  have s1: "select_mstemplate offline_env ''unlisted.test'' ?a = Some (fallback_template ''unlisted.test'')"
    by (simp add: select_mstemplate_def offline_env_def)
  have s2: "select_mstemplate ?E2 ''example.com'' ?b = Some ?t2"
    by (simp add: select_mstemplate_def fallback_template_def)
  have s3: "select_mstemplate ?E3 ''example.com'' ?b = Some ?t3"
    by (simp add: select_mstemplate_def fallback_template_def)
  obtain r1 where r1: "preset_path offline_env ?a ?a ''unlisted.test'' = Inr r1"
    using s1 by (simp add: preset_path_def mailspring_defaults_def fallback_template_def)
  obtain r2 where r2: "preset_path ?E2 ?b ?b ''example.com'' = Inr r2"
    using s2 by (simp add: preset_path_def mailspring_defaults_def fallback_template_def)
  obtain r3 where r3: "preset_path ?E3 ?b ?b ''example.com'' = Inr r3"
    using s3 by (simp add: preset_path_def mailspring_defaults_def fallback_template_def)
  have k4: "''imap_port'' \<noteq> ''container_folder''" "''imap_security'' \<noteq> ''container_folder''"
    "''smtp_port'' \<noteq> ''container_folder''" "''smtp_security'' \<noteq> ''container_folder''"
    by simp_all
  from preset_path_port_security [OF s1 r1] obtain d1 where
    g1: "\<forall>k. k \<notin> dom (settings ?a) \<and> k \<noteq> ''container_folder'' \<longrightarrow>
           sget (settings r1) k = sget d1 k" and
    v1: "sget d1 ''imap_port'' = JNum 993" "sget d1 ''imap_security'' = JStr ''SSL / TLS''"
        "sget d1 ''smtp_port'' = JNum 465" "sget d1 ''smtp_security'' = JStr ''SSL / TLS''"
    by (simp add: fallback_template_def) blast
  from g1 free(1-4) k4 v1
  have c1: "sget (settings r1) ''imap_port'' = JNum 993 \<and>
        sget (settings r1) ''imap_security'' = JStr ''SSL / TLS'' \<and>
        sget (settings r1) ''smtp_port'' = JNum 465 \<and>
        sget (settings r1) ''smtp_security'' = JStr ''SSL / TLS''"
    by metis
  from preset_path_port_security [OF s2 r2] obtain d2 where
    g2: "\<forall>k. k \<notin> dom (settings ?b) \<and> k \<noteq> ''container_folder'' \<longrightarrow>
           sget (settings r2) k = sget d2 k" and
    v2: "sget d2 ''imap_port'' = JNum 143" "sget d2 ''imap_security'' = JStr ''none''"
        "sget d2 ''smtp_port'' = JNum 587" "sget d2 ''smtp_security'' = JStr ''STARTTLS''"
    by (simp add: fallback_template_def) blast
  from g2 free(5-8) k4 v2
  have c2: "sget (settings r2) ''imap_port'' = JNum 143 \<and>
        sget (settings r2) ''imap_security'' = JStr ''none'' \<and>
        sget (settings r2) ''smtp_port'' = JNum 587 \<and>
        sget (settings r2) ''smtp_security'' = JStr ''STARTTLS''"
    by metis
  from preset_path_port_security [OF s3 r3] obtain d3 where
    g3: "\<forall>k. k \<notin> dom (settings ?b) \<and> k \<noteq> ''container_folder'' \<longrightarrow>
           sget (settings r3) k = sget d3 k" and
    v3: "sget d3 ''imap_port'' = JNum 143" "sget d3 ''imap_security'' = JStr ''STARTTLS''"
        "sget d3 ''smtp_port'' = JNum 465" "sget d3 ''smtp_security'' = JStr ''SSL / TLS''"
    by (simp add: fallback_template_def) blast
  from g3 free(5-8) k4 v3
  have c3: "sget (settings r3) ''imap_port'' = JNum 143 \<and>
        sget (settings r3) ''imap_security'' = JStr ''STARTTLS'' \<and>
        sget (settings r3) ''smtp_port'' = JNum 465 \<and>
        sget (settings r3) ''smtp_security'' = JStr ''SSL / TLS''"
    by metis
  from r1 c1 r2 c2 r3 c3 show ?thesis by blast
qed

lemma scan_servers_none:
  "list_all (other_type ty) xs \<Longrightarrow> scan_servers ty account xs = Inr None"
  by (induction xs)
     (auto simp: other_type_def entry_type_def bindE_def split: sum.splits)

lemma handle_servers_none:
  "no_entry_of_type ty servers \<Longrightarrow> handle_servers ty account servers = Inr None"
  by (cases servers)
     (auto simp: no_entry_of_type_def handle_servers_def scan_servers_none other_type_def
        entry_type_def bindE_def split: sum.splits)

lemma handle_servers_without_attributes:
  "handle_servers ty account (JObj [(''hostname'', h)]) = Inl TypeError"
  by (simp add: handle_servers_def)

lemma interpret_autoconfig_selected:
  assumes "autoConfig \<noteq> JBool False"
      and "js_get autoConfig ''emailProvider'' = Inr emailProvider" "truthy emailProvider"
      and "(case emailProvider of JArr ps \<Rightarrow> find_provider domain ps
            | _ \<Rightarrow> Inr (Some emailProvider)) = Inr (Some selected)"
      and "js_get selected ''incomingServer'' = Inr incomingServer" "incomingServer \<noteq> Undefined"
      and "js_get selected ''outgoingServer'' = Inr outgoingServer" "outgoingServer \<noteq> Undefined"
      and "handle_servers ''imap'' account incomingServer = Inr imapDetails"
      and "handle_servers ''smtp'' account outgoingServer = Inr smtpDetails"
  shows "interpret_autoconfig populated account domain autoConfig =
         Inr (Some (populated\<lparr>settings :=
           Object_assign (autoconfig_settings populated domain imapDetails smtpDetails)
             (settings populated)\<rparr>))"
  using assms by (simp add: interpret_autoconfig_def)

subsection \<open>An autoconfig document without a matching server entry\<close>

text \<open>
  Claim C10, as amended. Let the selected provider of the fetched document have both an
  \<open>incomingServer\<close> and an \<open>outgoingServer\<close>. If every entry of \<open>incomingServer\<close> carries
  attributes with a type (\<^verbatim>\<open>s.$.type\<close> can be read) and none is \<open>imap\<close>, and the
  \<open>outgoingServer\<close> is processed without an error, then \<open>TryThunderbirdAutoconfig\<close>
  succeeds (the preset table is not reached): the synthesized \<open>imap_host\<close> is
  \<^verbatim>\<open>imap.<domain>\<close> and the synthesized \<open>imap_port\<close>, \<open>imap_username\<close> and \<open>imap_security\<close> are
  \<open>undefined\<close>. The same holds with the two sides exchanged, for \<open>smtp\<close> and the \<open>smtp_\<close>
  fields. The synthesized values reach the result in every field the account does not
  already carry.
\<close>

theorem TryThunderbirdAutoconfig_missing_entry:
  assumes dm: "domain = domain_of (emailAddress account)"
      and doc: "snd (fetch_autoconfig E domain) = autoConfig" "autoConfig \<noteq> JBool False"
      and ep: "js_get autoConfig ''emailProvider'' = Inr emailProvider" "truthy emailProvider"
      and sel: "(case emailProvider of JArr ps \<Rightarrow> find_provider domain ps
                 | _ \<Rightarrow> Inr (Some emailProvider)) = Inr (Some selected)"
      and inc: "js_get selected ''incomingServer'' = Inr incomingServer" "incomingServer \<noteq> Undefined"
      and out: "js_get selected ''outgoingServer'' = Inr outgoingServer" "outgoingServer \<noteq> Undefined"
  shows
   "(no_entry_of_type ''imap'' incomingServer \<and>
     handle_servers ''smtp'' account outgoingServer = Inr smtpDetails \<longrightarrow>
       (\<exists>r defaults.
          snd (TryThunderbirdAutoconfig E populated account) = Inr (Some r) \<and>
          settings r = Object_assign defaults (settings populated) \<and>
          (\<forall>k. k \<notin> dom (settings populated) \<longrightarrow> sget (settings r) k = sget defaults k) \<and>
          defaults = autoconfig_settings populated domain None smtpDetails \<and>
          defaults ''imap_host'' = Some (JStr (''imap.'' @ domain)) \<and>
          defaults ''imap_port'' = Some Undefined \<and>
          defaults ''imap_username'' = Some Undefined \<and>
          defaults ''imap_security'' = Some Undefined)) \<and>
    (no_entry_of_type ''smtp'' outgoingServer \<and>
     handle_servers ''imap'' account incomingServer = Inr imapDetails \<longrightarrow>
       (\<exists>r defaults.
          snd (TryThunderbirdAutoconfig E populated account) = Inr (Some r) \<and>
          settings r = Object_assign defaults (settings populated) \<and>
          (\<forall>k. k \<notin> dom (settings populated) \<longrightarrow> sget (settings r) k = sget defaults k) \<and>
          defaults = autoconfig_settings populated domain imapDetails None \<and>
          defaults ''smtp_host'' = Some (JStr (''smtp.'' @ domain)) \<and>
          defaults ''smtp_port'' = Some Undefined \<and>
          defaults ''smtp_username'' = Some Undefined \<and>
          defaults ''smtp_security'' = Some Undefined))"
proof -
  have merge: "\<forall>k. k \<notin> dom (settings populated) \<longrightarrow>
      sget (Object_assign d (settings populated)) k = sget d k" for d
    by (auto simp: Object_assign_def sget_def map_add_def split: option.splits)
  have tr: "snd (TryThunderbirdAutoconfig E populated account) =
      interpret_autoconfig populated account domain autoConfig"
    using dm doc(1) by (simp add: TryThunderbirdAutoconfig_def Let_def)
  have imap: "\<exists>r defaults.
          snd (TryThunderbirdAutoconfig E populated account) = Inr (Some r) \<and>
          settings r = Object_assign defaults (settings populated) \<and>
          (\<forall>k. k \<notin> dom (settings populated) \<longrightarrow> sget (settings r) k = sget defaults k) \<and>
          defaults = autoconfig_settings populated domain None smtpDetails \<and>
          defaults ''imap_host'' = Some (JStr (''imap.'' @ domain)) \<and>
          defaults ''imap_port'' = Some Undefined \<and>
          defaults ''imap_username'' = Some Undefined \<and>
          defaults ''imap_security'' = Some Undefined"
    if n: "no_entry_of_type ''imap'' incomingServer"
      and h: "handle_servers ''smtp'' account outgoingServer = Inr smtpDetails"
  proof -
    from n have hi: "handle_servers ''imap'' account incomingServer = Inr None"
      by (rule handle_servers_none)
    have v: "autoconfig_settings populated domain None smtpDetails ''imap_host'' =
               Some (JStr (''imap.'' @ domain))"
            "autoconfig_settings populated domain None smtpDetails ''imap_port'' = Some Undefined"
            "autoconfig_settings populated domain None smtpDetails ''imap_username'' = Some Undefined"
            "autoconfig_settings populated domain None smtpDetails ''imap_security'' = Some Undefined"
      by (simp_all add: autoconfig_settings_def opt_chain_def js_or_def)
    from interpret_autoconfig_selected [OF doc(2) ep sel inc out hi h, of populated] tr merge v
    show ?thesis by simp
  qed
  have smtp: "\<exists>r defaults.
          snd (TryThunderbirdAutoconfig E populated account) = Inr (Some r) \<and>
          settings r = Object_assign defaults (settings populated) \<and>
          (\<forall>k. k \<notin> dom (settings populated) \<longrightarrow> sget (settings r) k = sget defaults k) \<and>
          defaults = autoconfig_settings populated domain imapDetails None \<and>
          defaults ''smtp_host'' = Some (JStr (''smtp.'' @ domain)) \<and>
          defaults ''smtp_port'' = Some Undefined \<and>
          defaults ''smtp_username'' = Some Undefined \<and>
          defaults ''smtp_security'' = Some Undefined"
    if n: "no_entry_of_type ''smtp'' outgoingServer"
      and h: "handle_servers ''imap'' account incomingServer = Inr imapDetails"
  proof -
    from n have ho: "handle_servers ''smtp'' account outgoingServer = Inr None"
      by (rule handle_servers_none)
    have v: "autoconfig_settings populated domain imapDetails None ''smtp_host'' =
               Some (JStr (''smtp.'' @ domain))"
            "autoconfig_settings populated domain imapDetails None ''smtp_port'' = Some Undefined"
            "autoconfig_settings populated domain imapDetails None ''smtp_username'' = Some Undefined"
            "autoconfig_settings populated domain imapDetails None ''smtp_security'' = Some Undefined"
      by (simp_all add: autoconfig_settings_def opt_chain_def js_or_def)
    from interpret_autoconfig_selected [OF doc(2) ep sel inc out h ho, of populated] tr merge v
    show ?thesis by simp
  qed
  from imap smtp show ?thesis by blast
qed

theorem TryThunderbirdAutoconfig_missing_entry_witness:
  "(\<exists>r. snd (TryThunderbirdAutoconfig
       (offline_env\<lparr>
          fetch := (\<lambda>url. if url = ''https://autoconfig.example.com/mail/config-v1.1.xml''
                          then Some \<lparr>status = 200, statusText = ''OK'', body = ''<clientConfig/>''\<rparr>
                          else None),
          parseStringPromise := (\<lambda>b. Some (JObj [(''emailProvider'', JObj
             [(''$'', JObj [(''id'', JStr ''example.com'')]),
              (''incomingServer'', JObj
                 [(''$'', JObj [(''type'', JStr ''pop3'')]), (''hostname'', JStr ''pop.example.com'')]),
              (''outgoingServer'', JObj
                 [(''$'', JObj [(''type'', JStr ''smtp'')]), (''hostname'', JStr ''mail.example.com''),
                  (''port'', JStr ''587''), (''socketType'', JStr ''STARTTLS''),
                  (''username'', JStr ''%EMAILADDRESS%'')])])]))\<rparr>)
       (new_Account [] [] Undefined ''ann@example.com'' [] Map.empty)
       (new_Account [] [] Undefined ''ann@example.com'' [] Map.empty)) = Inr (Some r) \<and>
     sget (settings r) ''imap_host'' = JStr ''imap.example.com'' \<and>
     sget (settings r) ''imap_port'' = Undefined \<and>
     sget (settings r) ''imap_username'' = Undefined \<and>
     sget (settings r) ''imap_security'' = Undefined \<and>
     sget (settings r) ''smtp_host'' = JStr ''mail.example.com'' \<and>
     sget (settings r) ''smtp_port'' = JStr ''587'' \<and>
     sget (settings r) ''smtp_username'' = JStr ''ann@example.com'' \<and>
     sget (settings r) ''smtp_security'' = JStr ''STARTTLS'') \<and>
   (\<exists>r. snd (TryThunderbirdAutoconfig
       (offline_env\<lparr>
          fetch := (\<lambda>url. if url = ''https://autoconfig.example.com/mail/config-v1.1.xml''
                          then Some \<lparr>status = 200, statusText = ''OK'', body = ''<clientConfig/>''\<rparr>
                          else None),
          parseStringPromise := (\<lambda>b. Some (JObj [(''emailProvider'', JObj
             [(''$'', JObj [(''id'', JStr ''example.com'')]),
              (''incomingServer'', JObj
                 [(''$'', JObj [(''type'', JStr ''imap'')]), (''hostname'', JStr ''mail.example.com''),
                  (''port'', JStr ''993''), (''socketType'', JStr ''SSL''),
                  (''username'', JStr ''%EMAILLOCALPART%'')]),
              (''outgoingServer'', JArr
                 [JObj [(''$'', JObj [(''type'', JStr ''exchange'')]),
                        (''hostname'', JStr ''ex.example.com'')]])])]))\<rparr>)
       (new_Account [] [] Undefined ''ann@example.com'' [] Map.empty)
       (new_Account [] [] Undefined ''ann@example.com'' [] Map.empty)) = Inr (Some r) \<and>
     sget (settings r) ''smtp_host'' = JStr ''smtp.example.com'' \<and>
     sget (settings r) ''smtp_port'' = Undefined \<and>
     sget (settings r) ''smtp_username'' = Undefined \<and>
     sget (settings r) ''smtp_security'' = Undefined \<and>
     sget (settings r) ''imap_host'' = JStr ''mail.example.com'' \<and>
     sget (settings r) ''imap_port'' = JStr ''993'' \<and>
     sget (settings r) ''imap_username'' = JStr ''ann'' \<and>
     sget (settings r) ''imap_security'' = JStr ''SSL / TLS'')"
proof -
  let ?a = "new_Account [] [] Undefined ''ann@example.com'' [] Map.empty"
  let ?inc = "JObj [(''$'', JObj [(''type'', JStr ''pop3'')]), (''hostname'', JStr ''pop.example.com'')]"
  let ?out = "JObj [(''$'', JObj [(''type'', JStr ''smtp'')]), (''hostname'', JStr ''mail.example.com''),
                  (''port'', JStr ''587''), (''socketType'', JStr ''STARTTLS''),
                  (''username'', JStr ''%EMAILADDRESS%'')]"
  let ?ep = "JObj [(''$'', JObj [(''id'', JStr ''example.com'')]),
              (''incomingServer'', ?inc), (''outgoingServer'', ?out)]"
  let ?doc = "JObj [(''emailProvider'', ?ep)]"
  let ?E = "offline_env\<lparr>
          fetch := (\<lambda>url. if url = ''https://autoconfig.example.com/mail/config-v1.1.xml''
                          then Some \<lparr>status = 200, statusText = ''OK'', body = ''<clientConfig/>''\<rparr>
                          else None),
          parseStringPromise := (\<lambda>b. Some ?doc)\<rparr>"
  let ?sd = "Some \<lparr>host = JStr ''mail.example.com'', port = JStr ''587'',
                   username = ''ann@example.com'', security = ''STARTTLS''\<rparr>"
  have dm: "''example.com'' = domain_of (emailAddress ?a)"
    by (simp add: new_Account_def string_eval)
  have doc: "snd (fetch_autoconfig ?E ''example.com'') = ?doc" "?doc \<noteq> JBool False"
    by (simp_all add: fetch_autoconfig_def getThunderbirdAutoconfig_def autoconfig_url1_def ok_def)
  have ep: "js_get ?doc ''emailProvider'' = Inr ?ep" "truthy ?ep"
    by simp_all
  have sel: "(case ?ep of JArr ps \<Rightarrow> find_provider ''example.com'' ps | _ \<Rightarrow> Inr (Some ?ep))
             = Inr (Some ?ep)"
    by simp
  have inc: "js_get ?ep ''incomingServer'' = Inr ?inc" "?inc \<noteq> Undefined"
    by simp_all
  have out: "js_get ?ep ''outgoingServer'' = Inr ?out" "?out \<noteq> Undefined"
    by simp_all
  have n: "no_entry_of_type ''imap'' ?inc"
    by (simp add: no_entry_of_type_def other_type_def entry_type_def)
  have h: "handle_servers ''smtp'' ?a ?out = Inr ?sd"
    by (simp add: handle_servers_def extractServerDetails_def new_Account_def)
  from TryThunderbirdAutoconfig_missing_entry [OF dm doc ep sel inc out, of ?sd ?a None] n h
  obtain r defaults where
    r: "snd (TryThunderbirdAutoconfig ?E ?a ?a) = Inr (Some r)" and
    g: "\<forall>k. k \<notin> dom (settings ?a) \<longrightarrow> sget (settings r) k = sget defaults k" and
    d: "defaults = autoconfig_settings ?a ''example.com'' None ?sd"
    by blast
  have e: "dom (settings ?a) = {}"
    by (simp add: new_Account_def)
  from g e have "sget (settings r) k = sget defaults k" for k
    by simp
  with d have "sget (settings r) ''imap_host'' = JStr ''imap.example.com'' \<and>
     sget (settings r) ''imap_port'' = Undefined \<and>
     sget (settings r) ''imap_username'' = Undefined \<and>
     sget (settings r) ''imap_security'' = Undefined \<and>
     sget (settings r) ''smtp_host'' = JStr ''mail.example.com'' \<and>
     sget (settings r) ''smtp_port'' = JStr ''587'' \<and>
     sget (settings r) ''smtp_username'' = JStr ''ann@example.com'' \<and>
     sget (settings r) ''smtp_security'' = JStr ''STARTTLS''"
    by (simp add: autoconfig_settings_def opt_chain_def js_or_def sget_def)
  with r have first: "\<exists>r. snd (TryThunderbirdAutoconfig ?E ?a ?a) = Inr (Some r) \<and>
     sget (settings r) ''imap_host'' = JStr ''imap.example.com'' \<and>
     sget (settings r) ''imap_port'' = Undefined \<and>
     sget (settings r) ''imap_username'' = Undefined \<and>
     sget (settings r) ''imap_security'' = Undefined \<and>
     sget (settings r) ''smtp_host'' = JStr ''mail.example.com'' \<and>
     sget (settings r) ''smtp_port'' = JStr ''587'' \<and>
     sget (settings r) ''smtp_username'' = JStr ''ann@example.com'' \<and>
     sget (settings r) ''smtp_security'' = JStr ''STARTTLS''"
    by blast
  let ?inc2 = "JObj [(''$'', JObj [(''type'', JStr ''imap'')]), (''hostname'', JStr ''mail.example.com''),
                  (''port'', JStr ''993''), (''socketType'', JStr ''SSL''),
                  (''username'', JStr ''%EMAILLOCALPART%'')]"
  let ?out2 = "JArr [JObj [(''$'', JObj [(''type'', JStr ''exchange'')]),
                        (''hostname'', JStr ''ex.example.com'')]]"
  let ?ep2 = "JObj [(''$'', JObj [(''id'', JStr ''example.com'')]),
              (''incomingServer'', ?inc2), (''outgoingServer'', ?out2)]"
  let ?doc2 = "JObj [(''emailProvider'', ?ep2)]"
  let ?E2 = "offline_env\<lparr>
          fetch := (\<lambda>url. if url = ''https://autoconfig.example.com/mail/config-v1.1.xml''
                          then Some \<lparr>status = 200, statusText = ''OK'', body = ''<clientConfig/>''\<rparr>
                          else None),
          parseStringPromise := (\<lambda>b. Some ?doc2)\<rparr>"
  let ?id2 = "Some \<lparr>host = JStr ''mail.example.com'', port = JStr ''993'',
                   username = ''ann'', security = ''SSL / TLS''\<rparr>"
  have doc2: "snd (fetch_autoconfig ?E2 ''example.com'') = ?doc2" "?doc2 \<noteq> JBool False"
    by (simp_all add: fetch_autoconfig_def getThunderbirdAutoconfig_def autoconfig_url1_def ok_def)
  have ep2: "js_get ?doc2 ''emailProvider'' = Inr ?ep2" "truthy ?ep2"
    by simp_all
  have sel2: "(case ?ep2 of JArr ps \<Rightarrow> find_provider ''example.com'' ps | _ \<Rightarrow> Inr (Some ?ep2))
             = Inr (Some ?ep2)"
    by simp
  have inc2: "js_get ?ep2 ''incomingServer'' = Inr ?inc2" "?inc2 \<noteq> Undefined"
    by simp_all
  have out2: "js_get ?ep2 ''outgoingServer'' = Inr ?out2" "?out2 \<noteq> Undefined"
    by simp_all
  have n2: "no_entry_of_type ''smtp'' ?out2"
    by (simp add: no_entry_of_type_def other_type_def entry_type_def)
  have h2: "handle_servers ''imap'' ?a ?inc2 = Inr ?id2"
    by (simp add: handle_servers_def extractServerDetails_def new_Account_def)
  from TryThunderbirdAutoconfig_missing_entry [OF dm doc2 ep2 sel2 inc2 out2, of None ?a ?id2] n2 h2
  obtain r2 defaults2 where
    r2: "snd (TryThunderbirdAutoconfig ?E2 ?a ?a) = Inr (Some r2)" and
    g2: "\<forall>k. k \<notin> dom (settings ?a) \<longrightarrow> sget (settings r2) k = sget defaults2 k" and
    d2: "defaults2 = autoconfig_settings ?a ''example.com'' ?id2 None"
    by blast
  from g2 e have "sget (settings r2) k = sget defaults2 k" for k
    by simp
  with d2 have "sget (settings r2) ''smtp_host'' = JStr ''smtp.example.com'' \<and>
     sget (settings r2) ''smtp_port'' = Undefined \<and>
     sget (settings r2) ''smtp_username'' = Undefined \<and>
     sget (settings r2) ''smtp_security'' = Undefined \<and>
     sget (settings r2) ''imap_host'' = JStr ''mail.example.com'' \<and>
     sget (settings r2) ''imap_port'' = JStr ''993'' \<and>
     sget (settings r2) ''imap_username'' = JStr ''ann'' \<and>
     sget (settings r2) ''imap_security'' = JStr ''SSL / TLS''"
    by (simp add: autoconfig_settings_def opt_chain_def js_or_def sget_def)
  with r2 have second: "\<exists>r. snd (TryThunderbirdAutoconfig ?E2 ?a ?a) = Inr (Some r) \<and>
     sget (settings r) ''smtp_host'' = JStr ''smtp.example.com'' \<and>
     sget (settings r) ''smtp_port'' = Undefined \<and>
     sget (settings r) ''smtp_username'' = Undefined \<and>
     sget (settings r) ''smtp_security'' = Undefined \<and>
     sget (settings r) ''imap_host'' = JStr ''mail.example.com'' \<and>
     sget (settings r) ''imap_port'' = JStr ''993'' \<and>
     sget (settings r) ''imap_username'' = JStr ''ann'' \<and>
     sget (settings r) ''imap_security'' = JStr ''SSL / TLS''"
    by blast
  from first second show ?thesis by (rule conjI)
qed

text \<open>
  The claim as stated fails: an \<open>incomingServer\<close> element without attributes has no entry
  of type \<open>imap\<close>, and both server elements are there, yet \<open>TryThunderbirdAutoconfig\<close>
  throws a \<open>TypeError\<close> at \<^verbatim>\<open>provider.incomingServer.$.type\<close>, and so does
  \<open>expandAccountWithCommonSettings\<close>.
\<close>

theorem attribute_less_entry_throws:
  "snd (TryThunderbirdAutoconfig
       (offline_env\<lparr>
          fetch := (\<lambda>url. if url = ''https://autoconfig.example.com/mail/config-v1.1.xml''
                          then Some \<lparr>status = 200, statusText = ''OK'', body = ''<clientConfig/>''\<rparr>
                          else None),
          parseStringPromise := (\<lambda>b. Some (JObj [(''emailProvider'', JObj
             [(''$'', JObj [(''id'', JStr ''example.com'')]),
              (''incomingServer'', JObj
                 [(''hostname'', JStr ''mail.example.com''), (''port'', JStr ''993'')]),
              (''outgoingServer'', JObj
                 [(''$'', JObj [(''type'', JStr ''smtp'')]), (''hostname'', JStr ''mail.example.com''),
                  (''port'', JStr ''587''), (''socketType'', JStr ''STARTTLS''),
                  (''username'', JStr ''%EMAILADDRESS%'')])])]))\<rparr>)
       (new_Account [] [] Undefined ''ann@example.com'' [] Map.empty)
       (new_Account [] [] Undefined ''ann@example.com'' [] Map.empty)) = Inl TypeError \<and>
   snd (expandAccountWithCommonSettings
       (offline_env\<lparr>
          fetch := (\<lambda>url. if url = ''https://autoconfig.example.com/mail/config-v1.1.xml''
                          then Some \<lparr>status = 200, statusText = ''OK'', body = ''<clientConfig/>''\<rparr>
                          else None),
          parseStringPromise := (\<lambda>b. Some (JObj [(''emailProvider'', JObj
             [(''$'', JObj [(''id'', JStr ''example.com'')]),
              (''incomingServer'', JObj
                 [(''hostname'', JStr ''mail.example.com''), (''port'', JStr ''993'')]),
              (''outgoingServer'', JObj
                 [(''$'', JObj [(''type'', JStr ''smtp'')]), (''hostname'', JStr ''mail.example.com''),
                  (''port'', JStr ''587''), (''socketType'', JStr ''STARTTLS''),
                  (''username'', JStr ''%EMAILADDRESS%'')])])]))\<rparr>)
       (new_Account [] [] Undefined ''ann@example.com'' [] Map.empty)) = Inl TypeError"
  by (simp add: expandAccountWithCommonSettings_def mxRecordsForDomain_def find_template_def
      clone_def offline_env_def TryThunderbirdAutoconfig_def Let_def fetch_autoconfig_def
      getThunderbirdAutoconfig_def autoconfig_url1_def ok_def interpret_autoconfig_def
      handle_servers_def new_Account_def string_eval)

lemma getThunderbirdAutoconfig_not_found:
  "not_found E url \<Longrightarrow> getThunderbirdAutoconfig E url = ([HttpGet url], JBool False)"
  by (auto simp: not_found_def getThunderbirdAutoconfig_def split: option.splits)

lemma fetch_autoconfig_events:
  "fst (fetch_autoconfig E domain) = [HttpGet (autoconfig_url1 domain)] \<or>
   fst (fetch_autoconfig E domain) =
     [HttpGet (autoconfig_url1 domain), HttpGet (autoconfig_url2 domain)]"
  by (simp add: fetch_autoconfig_def getThunderbirdAutoconfig_def Let_def)

lemma interpret_autoconfig_false [simp]:
  "interpret_autoconfig populated account domain (JBool False) = Inr None"
  by (simp add: interpret_autoconfig_def)

lemma expand_unfold:
  assumes "domain = domain_of (emailAddress account)"
      and "snd (mxRecordsForDomain E domain) = Inr mxRecords"
  shows "expandAccountWithCommonSettings E account =
     (case find_template E domain mxRecords of
        Some template \<Rightarrow>
          ([DnsResolveMx domain], structured_path account (clone account) domain template)
      | None \<Rightarrow>
          (case snd (TryThunderbirdAutoconfig E (clone account) account) of
             Inl e \<Rightarrow>
               (DnsResolveMx domain # fst (TryThunderbirdAutoconfig E (clone account) account), Inl e)
           | Inr (Some p) \<Rightarrow>
               (DnsResolveMx domain # fst (TryThunderbirdAutoconfig E (clone account) account), Inr p)
           | Inr None \<Rightarrow>
               (DnsResolveMx domain # fst (TryThunderbirdAutoconfig E (clone account) account),
                preset_path E account (clone account) domain)))"
  using assms
  by (simp add: expandAccountWithCommonSettings_def Let_def mxRecordsForDomain_def
      split: option.splits sum.splits)

lemma preset_path_usable:
  assumes "select_mstemplate E domain account = Some t"
      and "ms_imap_host t = JStr h1" "ms_smtp_host t = JStr h2"
  shows "\<exists>r. preset_path E account populated domain = Inr r"
  using assms by (simp add: preset_path_def mailspring_defaults_def)

subsection \<open>Failed autoconfig requests\<close>

text \<open>
  Claim C6. A request for an autoconfig document that meets a network failure, a status
  outside 2xx or an XML parse failure returns \<^verbatim>\<open>false\<close>, never an error. The second URL is
  requested after the first has failed. If both fail, \<open>TryThunderbirdAutoconfig\<close> returns
  \<^verbatim>\<open>false\<close>, and \<open>expandAccountWithCommonSettings\<close> (the structured table having no match)
  returns what the preset path returns, after exactly the DNS lookup and the two
  requests: no error of the requests reaches the caller, and with a preset whose hosts
  are strings (the generated fallback is one) the call resolves.
\<close>

theorem autoconfig_failures_fall_through:
  assumes dm: "domain = domain_of (emailAddress account)"
  shows
   "(not_found E url \<longrightarrow> getThunderbirdAutoconfig E url = ([HttpGet url], JBool False)) \<and>
    (not_found E (autoconfig_url1 domain) \<longrightarrow>
       fetch_autoconfig E domain =
         ([HttpGet (autoconfig_url1 domain), HttpGet (autoconfig_url2 domain)],
          snd (getThunderbirdAutoconfig E (autoconfig_url2 domain)))) \<and>
    (not_found E (autoconfig_url1 domain) \<and> not_found E (autoconfig_url2 domain) \<longrightarrow>
       TryThunderbirdAutoconfig E populated account =
         ([HttpGet (autoconfig_url1 domain), HttpGet (autoconfig_url2 domain)], Inr None) \<and>
       (\<forall>mxRecords.
          snd (mxRecordsForDomain E domain) = Inr mxRecords \<and>
          find_template E domain mxRecords = None \<longrightarrow>
            expandAccountWithCommonSettings E account =
              ([DnsResolveMx domain, HttpGet (autoconfig_url1 domain),
                HttpGet (autoconfig_url2 domain)],
               preset_path E account (clone account) domain) \<and>
            (\<forall>t h1 h2.
               select_mstemplate E domain account = Some t \<and>
               ms_imap_host t = JStr h1 \<and> ms_smtp_host t = JStr h2 \<longrightarrow>
                 (\<exists>r. snd (expandAccountWithCommonSettings E account) = Inr r))))"
proof (intro conjI impI allI)
  show "getThunderbirdAutoconfig E url = ([HttpGet url], JBool False)" if "not_found E url"
    using that by (rule getThunderbirdAutoconfig_not_found)
next
  assume "not_found E (autoconfig_url1 domain)"
  then show "fetch_autoconfig E domain =
         ([HttpGet (autoconfig_url1 domain), HttpGet (autoconfig_url2 domain)],
          snd (getThunderbirdAutoconfig E (autoconfig_url2 domain)))"
    by (simp add: fetch_autoconfig_def getThunderbirdAutoconfig_not_found Let_def)
       (simp add: getThunderbirdAutoconfig_def)
next
  assume nf: "not_found E (autoconfig_url1 domain) \<and> not_found E (autoconfig_url2 domain)"
  then show tr: "TryThunderbirdAutoconfig E populated account =
         ([HttpGet (autoconfig_url1 domain), HttpGet (autoconfig_url2 domain)], Inr None)"
    for populated
    using dm
    by (simp add: TryThunderbirdAutoconfig_def fetch_autoconfig_def
        getThunderbirdAutoconfig_not_found Let_def)
  fix mxRecords
  assume h: "snd (mxRecordsForDomain E domain) = Inr mxRecords \<and>
          find_template E domain mxRecords = None"
  then show ex: "expandAccountWithCommonSettings E account =
              ([DnsResolveMx domain, HttpGet (autoconfig_url1 domain),
                HttpGet (autoconfig_url2 domain)],
               preset_path E account (clone account) domain)"
    using expand_unfold [OF dm, of E mxRecords] tr [of "clone account"] by simp
  fix t h1 h2
  assume "select_mstemplate E domain account = Some t \<and>
               ms_imap_host t = JStr h1 \<and> ms_smtp_host t = JStr h2"
  then show "\<exists>r. snd (expandAccountWithCommonSettings E account) = Inr r"
    using ex preset_path_usable [of E domain account t h1 h2 "clone account"] by simp
qed

theorem autoconfig_failures_fall_through_witness:
  "expandAccountWithCommonSettings
     (offline_env\<lparr>
        fetch := (\<lambda>url. if url = ''https://autoconfig.example-unlisted-test.com/mail/config-v1.1.xml''
                        then Some \<lparr>status = 404, statusText = ''Not Found'', body = []\<rparr>
                        else Some \<lparr>status = 200, statusText = ''OK'', body = ''<html>''\<rparr>)\<rparr>)
     (new_Account [] [] Undefined ''ann@example-unlisted-test.com'' [] Map.empty)
   = ([DnsResolveMx ''example-unlisted-test.com'',
       HttpGet ''https://autoconfig.example-unlisted-test.com/mail/config-v1.1.xml'',
       HttpGet ''https://example-unlisted-test.com/.well-known/autoconfig/mail/config-v1.1.xml''],
      preset_path
        (offline_env\<lparr>
           fetch := (\<lambda>url. if url = ''https://autoconfig.example-unlisted-test.com/mail/config-v1.1.xml''
                           then Some \<lparr>status = 404, statusText = ''Not Found'', body = []\<rparr>
                           else Some \<lparr>status = 200, statusText = ''OK'', body = ''<html>''\<rparr>)\<rparr>)
        (new_Account [] [] Undefined ''ann@example-unlisted-test.com'' [] Map.empty)
        (clone (new_Account [] [] Undefined ''ann@example-unlisted-test.com'' [] Map.empty))
        ''example-unlisted-test.com'') \<and>
   (\<exists>r. snd (expandAccountWithCommonSettings
        (offline_env\<lparr>
           fetch := (\<lambda>url. if url = ''https://autoconfig.example-unlisted-test.com/mail/config-v1.1.xml''
                           then Some \<lparr>status = 404, statusText = ''Not Found'', body = []\<rparr>
                           else Some \<lparr>status = 200, statusText = ''OK'', body = ''<html>''\<rparr>)\<rparr>)
        (new_Account [] [] Undefined ''ann@example-unlisted-test.com'' [] Map.empty)) = Inr r)"
proof -
  let ?a = "new_Account [] [] Undefined ''ann@example-unlisted-test.com'' [] Map.empty"
  let ?d = "''example-unlisted-test.com''"
  let ?E = "offline_env\<lparr>
        fetch := (\<lambda>url. if url = ''https://autoconfig.example-unlisted-test.com/mail/config-v1.1.xml''
                        then Some \<lparr>status = 404, statusText = ''Not Found'', body = []\<rparr>
                        else Some \<lparr>status = 200, statusText = ''OK'', body = ''<html>''\<rparr>)\<rparr>"
  have dm: "?d = domain_of (emailAddress ?a)"
    by (simp add: new_Account_def string_eval)
  have u: "autoconfig_url1 ?d = ''https://autoconfig.example-unlisted-test.com/mail/config-v1.1.xml''"
          "autoconfig_url2 ?d = ''https://example-unlisted-test.com/.well-known/autoconfig/mail/config-v1.1.xml''"
    by (simp_all add: autoconfig_url1_def autoconfig_url2_def)
  have nf: "not_found ?E (autoconfig_url1 ?d) \<and> not_found ?E (autoconfig_url2 ?d)"
    by (simp add: u not_found_def ok_def offline_env_def)
  have mx: "snd (mxRecordsForDomain ?E ?d) = Inr [] \<and> find_template ?E ?d [] = None"
    by (simp add: mxRecordsForDomain_def find_template_def offline_env_def)
  have sel: "select_mstemplate ?E ?d ?a = Some (fallback_template ?d) \<and>
             ms_imap_host (fallback_template ?d) = JStr (''imap.'' @ ?d) \<and>
             ms_smtp_host (fallback_template ?d) = JStr (''smtp.'' @ ?d)"
    by (simp add: select_mstemplate_def offline_env_def fallback_template_def)
  from autoconfig_failures_fall_through [OF dm, of ?E "[]" "clone ?a"] nf mx sel
  show ?thesis unfolding u by blast
qed

lemma getThunderbirdAutoconfig_depends:
  "fetch E' = fetch E \<Longrightarrow> parseStringPromise E' = parseStringPromise E \<Longrightarrow>
   getThunderbirdAutoconfig E' url = getThunderbirdAutoconfig E url"
  by (auto simp: getThunderbirdAutoconfig_def split: option.splits)

lemma fetch_autoconfig_depends:
  "fetch E' = fetch E \<Longrightarrow> parseStringPromise E' = parseStringPromise E \<Longrightarrow>
   fetch_autoconfig E' domain = fetch_autoconfig E domain"
  by (simp add: fetch_autoconfig_def Let_def getThunderbirdAutoconfig_depends [of E' E])

lemma TryThunderbirdAutoconfig_depends:
  "fetch E' = fetch E \<Longrightarrow> parseStringPromise E' = parseStringPromise E \<Longrightarrow>
   TryThunderbirdAutoconfig E' populated account = TryThunderbirdAutoconfig E populated account"
  by (simp add: TryThunderbirdAutoconfig_def Let_def fetch_autoconfig_depends [of E' E])

lemma find_template_depends:
  "regex_test E' = regex_test E \<Longrightarrow> MailcoreProviderSettings E' = MailcoreProviderSettings E \<Longrightarrow>
   find_template E' domain mxRecords = find_template E domain mxRecords"
  by (simp add: find_template_def matches_provider_def [abs_def])

lemma mxRecordsForDomain_depends:
  "resolveMx E' = resolveMx E \<Longrightarrow> mxRecordsForDomain E' domain = mxRecordsForDomain E domain"
  by (simp add: mxRecordsForDomain_def)

subsection \<open>Priority of the sources\<close>

text \<open>
  Claim C1. \<open>expandAccountWithCommonSettings\<close> consults its sources in a fixed order. If
  the structured table has a template for the domain or its MX records, the result is
  the one synthesized from that template, the only input or output is the DNS lookup,
  and the result is the same whatever the autoconfig requests, the XML parser, the
  preset table and the deployment's container folder are. Otherwise the autoconfig
  documents are requested (the first URL, then the second if the first request returned
  \<^verbatim>\<open>false\<close>); if \<open>TryThunderbirdAutoconfig\<close> returns an account, that account is the result,
  whatever the preset table and the deployment's container folder are. Only if it
  returns \<^verbatim>\<open>false\<close> is the result the one of the preset path (preset by domain, by
  provider, or the generated fallback).
\<close>

theorem expand_priority_order:
  assumes dm: "domain = domain_of (emailAddress account)"
      and mx: "snd (mxRecordsForDomain E domain) = Inr mxRecords"
  shows
   "(\<forall>template. find_template E domain mxRecords = Some template \<longrightarrow>
       expandAccountWithCommonSettings E account =
         ([DnsResolveMx domain], structured_path account (clone account) domain template) \<and>
       (\<forall>f ps T c.
          expandAccountWithCommonSettings
            (E\<lparr>fetch := f, parseStringPromise := ps, MailspringProviderSettings := T,
               containerFolderDefaultGetter := c\<rparr>) account =
          expandAccountWithCommonSettings E account)) \<and>
    (\<forall>p. find_template E domain mxRecords = None \<and>
         snd (TryThunderbirdAutoconfig E (clone account) account) = Inr (Some p) \<longrightarrow>
       expandAccountWithCommonSettings E account =
         (DnsResolveMx domain # fst (fetch_autoconfig E domain), Inr p) \<and>
       (\<forall>T c.
          expandAccountWithCommonSettings
            (E\<lparr>MailspringProviderSettings := T, containerFolderDefaultGetter := c\<rparr>) account =
          expandAccountWithCommonSettings E account)) \<and>
    (find_template E domain mxRecords = None \<and>
     snd (TryThunderbirdAutoconfig E (clone account) account) = Inr None \<longrightarrow>
       expandAccountWithCommonSettings E account =
         (DnsResolveMx domain # fst (fetch_autoconfig E domain),
          preset_path E account (clone account) domain)) \<and>
    (fst (fetch_autoconfig E domain) = [HttpGet (autoconfig_url1 domain)] \<or>
     fst (fetch_autoconfig E domain) =
       [HttpGet (autoconfig_url1 domain), HttpGet (autoconfig_url2 domain)])"
proof -
  have fst_try: "fst (TryThunderbirdAutoconfig E (clone account) account) =
      fst (fetch_autoconfig E domain)"
    using dm by (simp add: TryThunderbirdAutoconfig_def Let_def)
  have s: "expandAccountWithCommonSettings E account =
         ([DnsResolveMx domain], structured_path account (clone account) domain template) \<and>
       (\<forall>f ps T c.
          expandAccountWithCommonSettings
            (E\<lparr>fetch := f, parseStringPromise := ps, MailspringProviderSettings := T,
               containerFolderDefaultGetter := c\<rparr>) account =
          expandAccountWithCommonSettings E account)"
    if t: "find_template E domain mxRecords = Some template" for template
  proof -
    have a: "expandAccountWithCommonSettings E' account =
         ([DnsResolveMx domain], structured_path account (clone account) domain template)"
      if "snd (mxRecordsForDomain E' domain) = Inr mxRecords"
         "find_template E' domain mxRecords = Some template" for E'
      using expand_unfold [OF dm that(1)] that(2) by simp
    from a [of E] mx t
    have 1: "expandAccountWithCommonSettings E account =
         ([DnsResolveMx domain], structured_path account (clone account) domain template)"
      by simp
    have 2: "expandAccountWithCommonSettings
            (E\<lparr>fetch := f, parseStringPromise := ps, MailspringProviderSettings := T,
               containerFolderDefaultGetter := c\<rparr>) account =
          expandAccountWithCommonSettings E account" for f ps T c
      using a [of "E\<lparr>fetch := f, parseStringPromise := ps, MailspringProviderSettings := T,
               containerFolderDefaultGetter := c\<rparr>"] mx t 1
        mxRecordsForDomain_depends [of "E\<lparr>fetch := f, parseStringPromise := ps,
               MailspringProviderSettings := T, containerFolderDefaultGetter := c\<rparr>" E domain]
        find_template_depends [of "E\<lparr>fetch := f, parseStringPromise := ps,
               MailspringProviderSettings := T, containerFolderDefaultGetter := c\<rparr>" E domain mxRecords]
      by simp
    from 1 2 show ?thesis by blast
  qed
  have au: "expandAccountWithCommonSettings E account =
         (DnsResolveMx domain # fst (fetch_autoconfig E domain), Inr p) \<and>
       (\<forall>T c.
          expandAccountWithCommonSettings
            (E\<lparr>MailspringProviderSettings := T, containerFolderDefaultGetter := c\<rparr>) account =
          expandAccountWithCommonSettings E account)"
    if n: "find_template E domain mxRecords = None"
      and tr: "snd (TryThunderbirdAutoconfig E (clone account) account) = Inr (Some p)" for p
  proof -
    have a: "expandAccountWithCommonSettings E' account =
         (DnsResolveMx domain # fst (fetch_autoconfig E domain), Inr p)"
      if "snd (mxRecordsForDomain E' domain) = Inr mxRecords"
         "find_template E' domain mxRecords = None"
         "TryThunderbirdAutoconfig E' (clone account) account =
          TryThunderbirdAutoconfig E (clone account) account" for E'
      using expand_unfold [OF dm that(1)] that(2,3) tr fst_try by simp
    from a [of E] mx n
    have 1: "expandAccountWithCommonSettings E account =
         (DnsResolveMx domain # fst (fetch_autoconfig E domain), Inr p)"
      by simp
    have 2: "expandAccountWithCommonSettings
            (E\<lparr>MailspringProviderSettings := T, containerFolderDefaultGetter := c\<rparr>) account =
          expandAccountWithCommonSettings E account" for T c
      using a [of "E\<lparr>MailspringProviderSettings := T, containerFolderDefaultGetter := c\<rparr>"]
        mx n 1
        mxRecordsForDomain_depends [of "E\<lparr>MailspringProviderSettings := T,
               containerFolderDefaultGetter := c\<rparr>" E domain]
        find_template_depends [of "E\<lparr>MailspringProviderSettings := T,
               containerFolderDefaultGetter := c\<rparr>" E domain mxRecords]
        TryThunderbirdAutoconfig_depends [of "E\<lparr>MailspringProviderSettings := T,
               containerFolderDefaultGetter := c\<rparr>" E "clone account" account]
      by simp
    from 1 2 show ?thesis by blast
  qed
  have pr: "expandAccountWithCommonSettings E account =
         (DnsResolveMx domain # fst (fetch_autoconfig E domain),
          preset_path E account (clone account) domain)"
    if "find_template E domain mxRecords = None"
       "snd (TryThunderbirdAutoconfig E (clone account) account) = Inr None"
    using expand_unfold [OF dm mx] that fst_try by simp
  from s au pr fetch_autoconfig_events [of E domain] show ?thesis by blast
qed

theorem expand_priority_order_witness:
  "expandAccountWithCommonSettings (offline_env\<lparr>
        regex_test := (\<lambda>src s. src = ''^example'' @ [backslash] @ ''.com$'' \<and> s = ''example.com''),
        MailcoreProviderSettings :=
          [\<lparr>domain_match = [''example'' @ [backslash] @ ''.com''], mx_match = [],
            servers_imap = [\<lparr>mc_hostname = JStr ''imap.{domain}'', mc_port = JNum 993,
                             mc_starttls = Undefined, mc_ssl = JBool True, mc_tls = Undefined\<rparr>],
            servers_smtp = [\<lparr>mc_hostname = JStr ''smtp.{domain}'', mc_port = JNum 587,
                             mc_starttls = JBool True, mc_ssl = Undefined, mc_tls = Undefined\<rparr>]\<rparr>]\<rparr>) (new_Account [] [] Undefined ''ann@example.com'' [] Map.empty) =
     ([DnsResolveMx ''example.com''],
      structured_path (new_Account [] [] Undefined ''ann@example.com'' [] Map.empty) (clone (new_Account [] [] Undefined ''ann@example.com'' [] Map.empty)) ''example.com'' (\<lparr>domain_match = [''example'' @ [backslash] @ ''.com''], mx_match = [],
            servers_imap = [\<lparr>mc_hostname = JStr ''imap.{domain}'', mc_port = JNum 993,
                             mc_starttls = Undefined, mc_ssl = JBool True, mc_tls = Undefined\<rparr>],
            servers_smtp = [\<lparr>mc_hostname = JStr ''smtp.{domain}'', mc_port = JNum 587,
                             mc_starttls = JBool True, mc_ssl = Undefined, mc_tls = Undefined\<rparr>]\<rparr>)) \<and>
   expandAccountWithCommonSettings
     ((offline_env\<lparr>
        regex_test := (\<lambda>src s. src = ''^example'' @ [backslash] @ ''.com$'' \<and> s = ''example.com''),
        MailcoreProviderSettings :=
          [\<lparr>domain_match = [''example'' @ [backslash] @ ''.com''], mx_match = [],
            servers_imap = [\<lparr>mc_hostname = JStr ''imap.{domain}'', mc_port = JNum 993,
                             mc_starttls = Undefined, mc_ssl = JBool True, mc_tls = Undefined\<rparr>],
            servers_smtp = [\<lparr>mc_hostname = JStr ''smtp.{domain}'', mc_port = JNum 587,
                             mc_starttls = JBool True, mc_ssl = Undefined, mc_tls = Undefined\<rparr>]\<rparr>]\<rparr>)\<lparr>fetch := (\<lambda>url. if url = ''https://autoconfig.example.com/mail/config-v1.1.xml''
                        then Some \<lparr>status = 200, statusText = ''OK'', body = ''<clientConfig/>''\<rparr>
                        else None), parseStringPromise := (\<lambda>b. Some (JObj [(''emailProvider'', JObj
             [(''$'', JObj [(''id'', JStr ''example.com'')]),
              (''incomingServer'', JObj
                 [(''$'', JObj [(''type'', JStr ''imap'')]), (''hostname'', JStr ''mail.example.com''),
                  (''port'', JStr ''993''), (''socketType'', JStr ''SSL''),
                  (''username'', JStr ''%EMAILADDRESS%'')]),
              (''outgoingServer'', JObj
                 [(''$'', JObj [(''type'', JStr ''smtp'')]), (''hostname'', JStr ''mail.example.com''),
                  (''port'', JStr ''587''), (''socketType'', JStr ''STARTTLS''),
                  (''username'', JStr ''%EMAILADDRESS%'')])])])),
        MailspringProviderSettings := [''example.com'' \<mapsto> fallback_template ''elsewhere.test''], containerFolderDefaultGetter := ''Folders''\<rparr>) (new_Account [] [] Undefined ''ann@example.com'' [] Map.empty) =
   expandAccountWithCommonSettings (offline_env\<lparr>
        regex_test := (\<lambda>src s. src = ''^example'' @ [backslash] @ ''.com$'' \<and> s = ''example.com''),
        MailcoreProviderSettings :=
          [\<lparr>domain_match = [''example'' @ [backslash] @ ''.com''], mx_match = [],
            servers_imap = [\<lparr>mc_hostname = JStr ''imap.{domain}'', mc_port = JNum 993,
                             mc_starttls = Undefined, mc_ssl = JBool True, mc_tls = Undefined\<rparr>],
            servers_smtp = [\<lparr>mc_hostname = JStr ''smtp.{domain}'', mc_port = JNum 587,
                             mc_starttls = JBool True, mc_ssl = Undefined, mc_tls = Undefined\<rparr>]\<rparr>]\<rparr>) (new_Account [] [] Undefined ''ann@example.com'' [] Map.empty) \<and>
   (\<exists>p. expandAccountWithCommonSettings (offline_env\<lparr>
        fetch := (\<lambda>url. if url = ''https://autoconfig.example.com/mail/config-v1.1.xml''
                        then Some \<lparr>status = 200, statusText = ''OK'', body = ''<clientConfig/>''\<rparr>
                        else None),
        parseStringPromise := (\<lambda>b. Some (JObj [(''emailProvider'', JObj
             [(''$'', JObj [(''id'', JStr ''example.com'')]),
              (''incomingServer'', JObj
                 [(''$'', JObj [(''type'', JStr ''imap'')]), (''hostname'', JStr ''mail.example.com''),
                  (''port'', JStr ''993''), (''socketType'', JStr ''SSL''),
                  (''username'', JStr ''%EMAILADDRESS%'')]),
              (''outgoingServer'', JObj
                 [(''$'', JObj [(''type'', JStr ''smtp'')]), (''hostname'', JStr ''mail.example.com''),
                  (''port'', JStr ''587''), (''socketType'', JStr ''STARTTLS''),
                  (''username'', JStr ''%EMAILADDRESS%'')])])]))\<rparr>) (new_Account [] [] Undefined ''ann@example.com'' [] Map.empty) =
      ([DnsResolveMx ''example.com'',
        HttpGet ''https://autoconfig.example.com/mail/config-v1.1.xml''], Inr p) \<and>
      sget (settings p) ''imap_host'' = JStr ''mail.example.com'') \<and>
   expandAccountWithCommonSettings
     ((offline_env\<lparr>
        fetch := (\<lambda>url. if url = ''https://autoconfig.example.com/mail/config-v1.1.xml''
                        then Some \<lparr>status = 200, statusText = ''OK'', body = ''<clientConfig/>''\<rparr>
                        else None),
        parseStringPromise := (\<lambda>b. Some (JObj [(''emailProvider'', JObj
             [(''$'', JObj [(''id'', JStr ''example.com'')]),
              (''incomingServer'', JObj
                 [(''$'', JObj [(''type'', JStr ''imap'')]), (''hostname'', JStr ''mail.example.com''),
                  (''port'', JStr ''993''), (''socketType'', JStr ''SSL''),
                  (''username'', JStr ''%EMAILADDRESS%'')]),
              (''outgoingServer'', JObj
                 [(''$'', JObj [(''type'', JStr ''smtp'')]), (''hostname'', JStr ''mail.example.com''),
                  (''port'', JStr ''587''), (''socketType'', JStr ''STARTTLS''),
                  (''username'', JStr ''%EMAILADDRESS%'')])])]))\<rparr>)\<lparr>MailspringProviderSettings := [''example.com'' \<mapsto> fallback_template ''elsewhere.test''], containerFolderDefaultGetter := ''Folders''\<rparr>)
     (new_Account [] [] Undefined ''ann@example.com'' [] Map.empty) =
   expandAccountWithCommonSettings (offline_env\<lparr>
        fetch := (\<lambda>url. if url = ''https://autoconfig.example.com/mail/config-v1.1.xml''
                        then Some \<lparr>status = 200, statusText = ''OK'', body = ''<clientConfig/>''\<rparr>
                        else None),
        parseStringPromise := (\<lambda>b. Some (JObj [(''emailProvider'', JObj
             [(''$'', JObj [(''id'', JStr ''example.com'')]),
              (''incomingServer'', JObj
                 [(''$'', JObj [(''type'', JStr ''imap'')]), (''hostname'', JStr ''mail.example.com''),
                  (''port'', JStr ''993''), (''socketType'', JStr ''SSL''),
                  (''username'', JStr ''%EMAILADDRESS%'')]),
              (''outgoingServer'', JObj
                 [(''$'', JObj [(''type'', JStr ''smtp'')]), (''hostname'', JStr ''mail.example.com''),
                  (''port'', JStr ''587''), (''socketType'', JStr ''STARTTLS''),
                  (''username'', JStr ''%EMAILADDRESS%'')])])]))\<rparr>) (new_Account [] [] Undefined ''ann@example.com'' [] Map.empty) \<and>
   expandAccountWithCommonSettings (offline_env\<lparr>MailspringProviderSettings := [''example.com'' \<mapsto> fallback_template ''elsewhere.test'']\<rparr>) (new_Account [] [] Undefined ''ann@example.com'' [] Map.empty) =
     ([DnsResolveMx ''example.com'',
       HttpGet ''https://autoconfig.example.com/mail/config-v1.1.xml'',
       HttpGet ''https://example.com/.well-known/autoconfig/mail/config-v1.1.xml''],
      preset_path (offline_env\<lparr>MailspringProviderSettings := [''example.com'' \<mapsto> fallback_template ''elsewhere.test'']\<rparr>) (new_Account [] [] Undefined ''ann@example.com'' [] Map.empty) (clone (new_Account [] [] Undefined ''ann@example.com'' [] Map.empty))
        ''example.com'')"
proof -
  let ?a = "new_Account [] [] Undefined ''ann@example.com'' [] Map.empty"
  let ?d = "''example.com''"
  let ?tpl = "\<lparr>domain_match = [''example'' @ [backslash] @ ''.com''], mx_match = [],
            servers_imap = [\<lparr>mc_hostname = JStr ''imap.{domain}'', mc_port = JNum 993,
                             mc_starttls = Undefined, mc_ssl = JBool True, mc_tls = Undefined\<rparr>],
            servers_smtp = [\<lparr>mc_hostname = JStr ''smtp.{domain}'', mc_port = JNum 587,
                             mc_starttls = JBool True, mc_ssl = Undefined, mc_tls = Undefined\<rparr>]\<rparr>"
  let ?E1 = "offline_env\<lparr>
        regex_test := (\<lambda>src s. src = ''^example'' @ [backslash] @ ''.com$'' \<and> s = ''example.com''),
        MailcoreProviderSettings :=
          [\<lparr>domain_match = [''example'' @ [backslash] @ ''.com''], mx_match = [],
            servers_imap = [\<lparr>mc_hostname = JStr ''imap.{domain}'', mc_port = JNum 993,
                             mc_starttls = Undefined, mc_ssl = JBool True, mc_tls = Undefined\<rparr>],
            servers_smtp = [\<lparr>mc_hostname = JStr ''smtp.{domain}'', mc_port = JNum 587,
                             mc_starttls = JBool True, mc_ssl = Undefined, mc_tls = Undefined\<rparr>]\<rparr>]\<rparr>"
  let ?doc = "JObj [(''emailProvider'', JObj
             [(''$'', JObj [(''id'', JStr ''example.com'')]),
              (''incomingServer'', JObj
                 [(''$'', JObj [(''type'', JStr ''imap'')]), (''hostname'', JStr ''mail.example.com''),
                  (''port'', JStr ''993''), (''socketType'', JStr ''SSL''),
                  (''username'', JStr ''%EMAILADDRESS%'')]),
              (''outgoingServer'', JObj
                 [(''$'', JObj [(''type'', JStr ''smtp'')]), (''hostname'', JStr ''mail.example.com''),
                  (''port'', JStr ''587''), (''socketType'', JStr ''STARTTLS''),
                  (''username'', JStr ''%EMAILADDRESS%'')])])]"
  let ?E2 = "offline_env\<lparr>
        fetch := (\<lambda>url. if url = ''https://autoconfig.example.com/mail/config-v1.1.xml''
                        then Some \<lparr>status = 200, statusText = ''OK'', body = ''<clientConfig/>''\<rparr>
                        else None),
        parseStringPromise := (\<lambda>b. Some (JObj [(''emailProvider'', JObj
             [(''$'', JObj [(''id'', JStr ''example.com'')]),
              (''incomingServer'', JObj
                 [(''$'', JObj [(''type'', JStr ''imap'')]), (''hostname'', JStr ''mail.example.com''),
                  (''port'', JStr ''993''), (''socketType'', JStr ''SSL''),
                  (''username'', JStr ''%EMAILADDRESS%'')]),
              (''outgoingServer'', JObj
                 [(''$'', JObj [(''type'', JStr ''smtp'')]), (''hostname'', JStr ''mail.example.com''),
                  (''port'', JStr ''587''), (''socketType'', JStr ''STARTTLS''),
                  (''username'', JStr ''%EMAILADDRESS%'')])])]))\<rparr>"
  let ?E3 = "offline_env\<lparr>MailspringProviderSettings := [''example.com'' \<mapsto> fallback_template ''elsewhere.test'']\<rparr>"
  have dm: "?d = domain_of (emailAddress ?a)"
    by (simp add: new_Account_def string_eval)
  have u: "autoconfig_url1 ?d = ''https://autoconfig.example.com/mail/config-v1.1.xml''"
          "autoconfig_url2 ?d = ''https://example.com/.well-known/autoconfig/mail/config-v1.1.xml''"
    by (simp_all add: autoconfig_url1_def autoconfig_url2_def)
  have mx1: "snd (mxRecordsForDomain ?E1 ?d) = Inr []"
    and mx2: "snd (mxRecordsForDomain ?E2 ?d) = Inr []"
    and mx3: "snd (mxRecordsForDomain ?E3 ?d) = Inr []"
    by (simp_all add: mxRecordsForDomain_def offline_env_def)
  have f1: "find_template ?E1 ?d [] = Some ?tpl"
    by (simp add: find_template_def matches_provider_def)
  have f2: "find_template ?E2 ?d [] = None" and f3: "find_template ?E3 ?d [] = None"
    by (simp_all add: find_template_def offline_env_def)
  from expand_priority_order [OF dm mx1] f1
  have c1: "expandAccountWithCommonSettings ?E1 ?a =
     ([DnsResolveMx ?d], structured_path ?a (clone ?a) ?d ?tpl)"
    and c2: "expandAccountWithCommonSettings
     (?E1\<lparr>fetch := (\<lambda>url. if url = ''https://autoconfig.example.com/mail/config-v1.1.xml''
                        then Some \<lparr>status = 200, statusText = ''OK'', body = ''<clientConfig/>''\<rparr>
                        else None), parseStringPromise := (\<lambda>b. Some ?doc),
        MailspringProviderSettings := [''example.com'' \<mapsto> fallback_template ''elsewhere.test''], containerFolderDefaultGetter := ''Folders''\<rparr>) ?a =
      expandAccountWithCommonSettings ?E1 ?a"
    by blast+
  have fa: "fetch_autoconfig ?E2 ?d = ([HttpGet (autoconfig_url1 ?d)], ?doc)"
    by (simp add: fetch_autoconfig_def getThunderbirdAutoconfig_def u ok_def)
  obtain p where p: "snd (TryThunderbirdAutoconfig ?E2 (clone ?a) ?a) = Inr (Some p)"
    and ph: "sget (settings p) ''imap_host'' = JStr ''mail.example.com''"
    using dm [symmetric]
    by (simp add: TryThunderbirdAutoconfig_def Let_def fa interpret_autoconfig_def handle_servers_def
        extractServerDetails_def autoconfig_settings_def Object_assign_def opt_chain_def
        js_or_def sget_def clone_def new_Account_def)
  from expand_priority_order [OF dm mx2] f2 p
  have c3: "expandAccountWithCommonSettings ?E2 ?a =
      (DnsResolveMx ?d # fst (fetch_autoconfig ?E2 ?d), Inr p)"
    and c4: "expandAccountWithCommonSettings
     (?E2\<lparr>MailspringProviderSettings := [''example.com'' \<mapsto> fallback_template ''elsewhere.test''], containerFolderDefaultGetter := ''Folders''\<rparr>) ?a =
      expandAccountWithCommonSettings ?E2 ?a"
    by blast+
  have fb: "fetch_autoconfig ?E3 ?d =
      ([HttpGet (autoconfig_url1 ?d), HttpGet (autoconfig_url2 ?d)], JBool False)"
    by (simp add: fetch_autoconfig_def getThunderbirdAutoconfig_def offline_env_def)
  have t3: "snd (TryThunderbirdAutoconfig ?E3 (clone ?a) ?a) = Inr None"
    using dm [symmetric] by (simp add: TryThunderbirdAutoconfig_def Let_def fb)
  from expand_priority_order [OF dm mx3] f3 t3
  have c5: "expandAccountWithCommonSettings ?E3 ?a =
      (DnsResolveMx ?d # fst (fetch_autoconfig ?E3 ?d), preset_path ?E3 ?a (clone ?a) ?d)"
    by blast
  from c1 c2 c3 c4 c5 ph show ?thesis
    by (simp add: fa fb u)
qed

lemma mxRecordsForDomain_resolves: "\<exists>xs. snd (mxRecordsForDomain E domain) = Inr xs"
  by (simp add: mxRecordsForDomain_def split: sum.splits)

lemma structured_path_settings:
  assumes "structured_path account populated domain template = Inr r"
  shows "\<exists>defaults. settings r = Object_assign defaults (settings populated) \<and>
           defaults ''container_folder'' = Some (JStr [])"
  using assms
  by (auto simp: structured_path_def mailcore_defaults_def bindE_def Let_def split: sum.splits)

lemma interpret_autoconfig_settings:
  assumes "interpret_autoconfig populated account domain autoConfig = Inr (Some r)"
  shows "\<exists>defaults. settings r = Object_assign defaults (settings populated) \<and>
           defaults ''container_folder'' = Some (JStr [])"
proof -
  have c: "autoconfig_settings populated domain i s ''container_folder'' = Some (JStr [])" for i s
    by (simp add: autoconfig_settings_def)
  from assms obtain i s where
    "r = populated\<lparr>settings := Object_assign (autoconfig_settings populated domain i s)
           (settings populated)\<rparr>"
    by (auto simp: interpret_autoconfig_def bindE_def
        split: if_splits sum.splits option.splits)
  with c show ?thesis by auto
qed

lemma preset_path_settings:
  assumes "preset_path E account populated domain = Inr r"
  shows "\<exists>t defaults. select_mstemplate E domain account = Some t \<and>
           settings r = container_folder_override (containerFolderDefaultGetter E)
             (Object_assign defaults (settings populated)) \<and>
           defaults ''container_folder'' = Some (ms_container_folder t)"
  using assms
  by (auto simp: preset_path_def mailspring_defaults_def bindE_def
      split: option.splits sum.splits)

lemma Object_assign_existing:
  "s k = Some v \<Longrightarrow> Object_assign defaults s k = Some v"
  by (simp add: Object_assign_def)

lemma Object_assign_new:
  "s k = None \<Longrightarrow> Object_assign defaults s k = defaults k"
  by (simp add: Object_assign_def map_add_def)

lemma container_folder_override_other:
  "k \<noteq> ''container_folder'' \<Longrightarrow> container_folder_override c s k = s k"
  by (simp add: container_folder_override_def)

lemma container_folder_override_value:
  "s ''container_folder'' = Some m \<Longrightarrow>
   container_folder_override c s ''container_folder'' =
     Some (if c \<noteq> ''Mailspring'' \<and> (m = JStr [] \<or> m = Undefined) then JStr c else m)"
  by (simp add: container_folder_override_def sget_def)

lemma expand_result_cases:
  assumes res: "snd (expandAccountWithCommonSettings E account) = Inr result"
  shows "(\<not> preset_path_taken E account \<and>
          (\<exists>defaults. settings result = Object_assign defaults (settings account) \<and>
             defaults ''container_folder'' = Some (JStr []))) \<or>
         (preset_path_taken E account \<and>
          (\<exists>t defaults.
             select_mstemplate E (domain_of (emailAddress account)) account = Some t \<and>
             settings result = container_folder_override (containerFolderDefaultGetter E)
               (Object_assign defaults (settings account)) \<and>
             defaults ''container_folder'' = Some (ms_container_folder t)))"
proof -
  let ?d = "domain_of (emailAddress account)"
  obtain mx where mx: "snd (mxRecordsForDomain E ?d) = Inr mx"
    using mxRecordsForDomain_resolves by blast
  note u = expand_unfold [where domain = "?d" and account = account, OF refl mx]
  show ?thesis
  proof (cases "find_template E ?d mx")
    case (Some template)
    with u res have "structured_path account (clone account) ?d template = Inr result"
      by simp
    from structured_path_settings [OF this] Some mx show ?thesis
      by (auto simp: preset_path_taken_def clone_def)
  next
    case None
    show ?thesis
    proof (cases "snd (TryThunderbirdAutoconfig E (clone account) account)")
      case (Inl e)
      with u res None show ?thesis by simp
    next
      case (Inr found)
      show ?thesis
      proof (cases found)
        case None': None
        with u res None Inr have "preset_path E account (clone account) ?d = Inr result"
          by simp
        from preset_path_settings [OF this] None Inr None' mx show ?thesis
          by (auto simp: preset_path_taken_def clone_def)
      next
        case (Some p)
        with u res None Inr have "p = result" by simp
        with Some Inr have
          "interpret_autoconfig (clone account) account ?d (snd (fetch_autoconfig E ?d)) =
             Inr (Some result)"
          by (simp add: TryThunderbirdAutoconfig_def Let_def)
        from interpret_autoconfig_settings [OF this] None Inr Some mx show ?thesis
          by (auto simp: preset_path_taken_def clone_def)
      qed
    qed
  qed
qed

lemma structured_path_pinned:
  assumes "structured_path account populated domain template = Inr r"
  shows "\<exists>defaults. mailcore_defaults account populated domain template = Inr defaults \<and>
           settings r = Object_assign defaults (settings populated)"
  using assms by (auto simp: structured_path_def bindE_def split: sum.splits)

lemma preset_path_pinned:
  assumes "preset_path E account populated domain = Inr r"
  shows "\<exists>t defaults. select_mstemplate E domain account = Some t \<and>
           mailspring_defaults account populated domain t = Inr defaults \<and>
           settings r = container_folder_override (containerFolderDefaultGetter E)
             (Object_assign defaults (settings populated))"
  using assms by (auto simp: preset_path_def bindE_def split: option.splits sum.splits)

lemma interpret_autoconfig_pinned:
  assumes "interpret_autoconfig populated account domain autoConfig = Inr (Some r)"
  shows "\<exists>emailProvider selected incomingServer outgoingServer imapDetails smtpDetails.
           js_get autoConfig ''emailProvider'' = Inr emailProvider \<and>
           (case emailProvider of JArr ps \<Rightarrow> find_provider domain ps
            | _ \<Rightarrow> Inr (Some emailProvider)) = Inr (Some selected) \<and>
           js_get selected ''incomingServer'' = Inr incomingServer \<and>
           js_get selected ''outgoingServer'' = Inr outgoingServer \<and>
           handle_servers ''imap'' account incomingServer = Inr imapDetails \<and>
           handle_servers ''smtp'' account outgoingServer = Inr smtpDetails \<and>
           settings r =
             Object_assign (autoconfig_settings populated domain imapDetails smtpDetails)
               (settings populated)"
  using assms
  by (auto simp: interpret_autoconfig_def bindE_def split: if_splits sum.splits option.splits)

lemma expand_result_pinned:
  assumes res: "snd (expandAccountWithCommonSettings E account) = Inr result"
  shows
   "(\<exists>mxRecords template defaults.
       snd (mxRecordsForDomain E (domain_of (emailAddress account))) = Inr mxRecords \<and>
       find_template E (domain_of (emailAddress account)) mxRecords = Some template \<and>
       mailcore_defaults account (clone account) (domain_of (emailAddress account)) template =
         Inr defaults \<and>
       settings result = Object_assign defaults (settings account)) \<or>
    (\<exists>mxRecords emailProvider selected incomingServer outgoingServer imapDetails smtpDetails.
       snd (mxRecordsForDomain E (domain_of (emailAddress account))) = Inr mxRecords \<and>
       find_template E (domain_of (emailAddress account)) mxRecords = None \<and>
       js_get (snd (fetch_autoconfig E (domain_of (emailAddress account)))) ''emailProvider'' =
         Inr emailProvider \<and>
       (case emailProvider of
          JArr ps \<Rightarrow> find_provider (domain_of (emailAddress account)) ps
        | _ \<Rightarrow> Inr (Some emailProvider)) = Inr (Some selected) \<and>
       js_get selected ''incomingServer'' = Inr incomingServer \<and>
       js_get selected ''outgoingServer'' = Inr outgoingServer \<and>
       handle_servers ''imap'' account incomingServer = Inr imapDetails \<and>
       handle_servers ''smtp'' account outgoingServer = Inr smtpDetails \<and>
       settings result =
         Object_assign
           (autoconfig_settings (clone account) (domain_of (emailAddress account))
              imapDetails smtpDetails)
           (settings account)) \<or>
    (preset_path_taken E account \<and>
     (\<exists>t defaults.
        select_mstemplate E (domain_of (emailAddress account)) account = Some t \<and>
        mailspring_defaults account (clone account) (domain_of (emailAddress account)) t =
          Inr defaults \<and>
        settings result =
          container_folder_override (containerFolderDefaultGetter E)
            (Object_assign defaults (settings account))))"
proof -
  let ?d = "domain_of (emailAddress account)"
  obtain mx where mx: "snd (mxRecordsForDomain E ?d) = Inr mx"
    using mxRecordsForDomain_resolves by blast
  note u = expand_unfold [where domain = "?d" and account = account, OF refl mx]
  have cl: "settings (clone account) = settings account"
    by (simp add: clone_def)
  show ?thesis
  proof (cases "find_template E ?d mx")
    case (Some template)
    with u res have "structured_path account (clone account) ?d template = Inr result"
      by simp
    from structured_path_pinned [OF this] Some mx cl show ?thesis
      by auto
  next
    case None
    show ?thesis
    proof (cases "snd (TryThunderbirdAutoconfig E (clone account) account)")
      case (Inl e)
      with u res None show ?thesis by simp
    next
      case (Inr found)
      show ?thesis
      proof (cases found)
        case None': None
        with u res None Inr have "preset_path E account (clone account) ?d = Inr result"
          by simp
        from preset_path_pinned [OF this] cl
        obtain t defaults where
          "select_mstemplate E ?d account = Some t"
          "mailspring_defaults account (clone account) ?d t = Inr defaults"
          "settings result = container_folder_override (containerFolderDefaultGetter E)
             (Object_assign defaults (settings account))"
          by auto
        moreover from None Inr None' mx have "preset_path_taken E account"
          by (simp add: preset_path_taken_def)
        ultimately show ?thesis by blast
      next
        case (Some p)
        with u res None Inr have "p = result" by simp
        with Some Inr have
          "interpret_autoconfig (clone account) account ?d (snd (fetch_autoconfig E ?d)) =
             Inr (Some result)"
          by (simp add: TryThunderbirdAutoconfig_def Let_def)
        from interpret_autoconfig_pinned [OF this] cl
        obtain emailProvider selected incomingServer outgoingServer imapDetails smtpDetails where
          "js_get (snd (fetch_autoconfig E ?d)) ''emailProvider'' = Inr emailProvider"
          "(case emailProvider of JArr ps \<Rightarrow> find_provider ?d ps
            | _ \<Rightarrow> Inr (Some emailProvider)) = Inr (Some selected)"
          "js_get selected ''incomingServer'' = Inr incomingServer"
          "js_get selected ''outgoingServer'' = Inr outgoingServer"
          "handle_servers ''imap'' account incomingServer = Inr imapDetails"
          "handle_servers ''smtp'' account outgoingServer = Inr smtpDetails"
          "settings result =
             Object_assign (autoconfig_settings (clone account) ?d imapDetails smtpDetails)
               (settings account)"
          by auto
        with mx None show ?thesis by blast
      qed
    qed
  qed
qed

lemma existing_fields_kept:
  assumes res: "snd (expandAccountWithCommonSettings E account) = Inr result"
  shows
   "(\<forall>k v. settings account k = Some v \<and> k \<noteq> ''container_folder'' \<longrightarrow>
       settings result k = Some v) \<and>
    (\<forall>v. settings account ''imap_password'' = Some v \<longrightarrow>
       settings result ''imap_password'' = Some v) \<and>
    (\<forall>v. settings account ''container_folder'' = Some v \<longrightarrow>
       settings result ''container_folder'' =
         Some (if preset_path_taken E account \<and>
                  containerFolderDefaultGetter E \<noteq> ''Mailspring'' \<and>
                  (v = JStr [] \<or> v = Undefined)
               then JStr (containerFolderDefaultGetter E) else v))"
proof -
  from expand_result_cases [OF res]
  consider
    (direct) defaults where "\<not> preset_path_taken E account"
      "settings result = Object_assign defaults (settings account)"
  | (preset) defaults where "preset_path_taken E account"
      "settings result = container_folder_override (containerFolderDefaultGetter E)
               (Object_assign defaults (settings account))"
    by blast
  then show ?thesis
  proof cases
    case direct
    then show ?thesis
      by (auto simp: Object_assign_existing)
  next
    case preset
    have 1: "settings result k = Some v"
      if "settings account k = Some v \<and> k \<noteq> ''container_folder''" for k v
      using that preset(2)
      by (simp add: container_folder_override_other Object_assign_existing)
    have 2: "settings result ''container_folder'' =
         Some (if preset_path_taken E account \<and>
                  containerFolderDefaultGetter E \<noteq> ''Mailspring'' \<and>
                  (v = JStr [] \<or> v = Undefined)
               then JStr (containerFolderDefaultGetter E) else v)"
      if "settings account ''container_folder'' = Some v" for v
      using preset
        container_folder_override_value
          [where s = "Object_assign defaults (settings account)" and m = v
             and c = "containerFolderDefaultGetter E",
           OF Object_assign_existing [of "settings account" "''container_folder''" v defaults, OF that]]
      by simp
    from 1 2 preset show ?thesis by auto
  qed
qed

subsection \<open>Container folder\<close>

text \<open>
  Claim C5, as amended. On the preset-table path, let \<open>m\<close> be the \<open>container_folder\<close> after
  the merge: the account's own value if it carries the field, the preset's otherwise.
  The returned \<open>container_folder\<close> is the deployment's default when \<open>m\<close> is the empty
  string or \<open>undefined\<close> and the default differs from \<open>Mailspring\<close>, and \<open>m\<close> otherwise. On
  the structured-table and autoconfig paths the returned \<open>container_folder\<close> is the
  account's own value if it carries the field and the empty string otherwise, whatever
  the deployment's default is.
\<close>

theorem container_folder_of_result:
  assumes res: "snd (expandAccountWithCommonSettings E account) = Inr result"
  shows
   "(\<not> preset_path_taken E account \<longrightarrow>
       settings result ''container_folder'' =
         Some (case settings account ''container_folder'' of Some v \<Rightarrow> v | None \<Rightarrow> JStr [])) \<and>
    (preset_path_taken E account \<longrightarrow>
       (\<exists>t m. select_mstemplate E (domain_of (emailAddress account)) account = Some t \<and>
          m = (case settings account ''container_folder'' of
                 Some v \<Rightarrow> v | None \<Rightarrow> ms_container_folder t) \<and>
          settings result ''container_folder'' =
            Some (if containerFolderDefaultGetter E \<noteq> ''Mailspring'' \<and>
                     (m = JStr [] \<or> m = Undefined)
                  then JStr (containerFolderDefaultGetter E) else m)))"
proof -
  have merged: "Object_assign defaults (settings account) ''container_folder'' =
      Some (case settings account ''container_folder'' of Some v \<Rightarrow> v | None \<Rightarrow> d)"
    if "defaults ''container_folder'' = Some d" for defaults d
    using that by (simp add: Object_assign_def map_add_def split: option.splits)
  from expand_result_cases [OF res]
  show ?thesis
  proof (elim disjE conjE exE)
    fix defaults
    assume "\<not> preset_path_taken E account"
      "settings result = Object_assign defaults (settings account)"
      "defaults ''container_folder'' = Some (JStr [])"
    then show ?thesis using merged [of defaults "JStr []"] by simp
  next
    fix t defaults
    assume a: "preset_path_taken E account"
      "select_mstemplate E (domain_of (emailAddress account)) account = Some t"
      "settings result = container_folder_override (containerFolderDefaultGetter E)
               (Object_assign defaults (settings account))"
      "defaults ''container_folder'' = Some (ms_container_folder t)"
    from container_folder_override_value
      [where s = "Object_assign defaults (settings account)"
         and m = "case settings account ''container_folder'' of
                    Some v \<Rightarrow> v | None \<Rightarrow> ms_container_folder t"
         and c = "containerFolderDefaultGetter E",
       OF merged [of defaults "ms_container_folder t", OF a(4)]]
      a(1,2,3)
    show ?thesis by simp
  qed
qed

lemmas expand_eval =
  expandAccountWithCommonSettings_def Let_def mxRecordsForDomain_def find_template_def
  matches_provider_def TryThunderbirdAutoconfig_def fetch_autoconfig_def
  getThunderbirdAutoconfig_def autoconfig_url1_def autoconfig_url2_def preset_path_def
  select_mstemplate_def mailspring_defaults_def fallback_template_def imap_port_security_def
  smtp_port_security_def usernameWithFormat_def container_folder_override_def
  Object_assign_def sget_def js_or_def clone_def new_Account_def ok_def structured_path_def
  mailcore_defaults_def first_server_def mc_security_def replace_def preset_path_taken_def
  offline_env_def string_eval


subsection \<open>Fields the account already carries\<close>

text \<open>
  Claim C4, as amended. On every path of \<open>expandAccountWithCommonSettings\<close>, every
  settings field the incoming account carries, other than \<open>container_folder\<close>, is in
  the result unchanged; in particular \<open>imap_password\<close>. A \<open>container_folder\<close> the account
  carries is unchanged too, except on the preset-table path when its value is the empty
  string or \<open>undefined\<close> and the deployment's default differs from \<open>Mailspring\<close>: there it
  becomes the deployment's default. The final settings are the defaults the path taken
  synthesizes (\<open>mailcore_defaults\<close> of the matching structured template,
  \<open>autoconfig_settings\<close> of the server details found in the fetched document, or
  \<open>mailspring_defaults\<close> of the selected preset) overlaid with the account's fields,
  followed on the preset-table path by that substitution.
\<close>

theorem existing_settings_preserved:
  assumes res: "snd (expandAccountWithCommonSettings E account) = Inr result"
  shows
   "(\<forall>k v. settings account k = Some v \<and> k \<noteq> ''container_folder'' \<longrightarrow>
       settings result k = Some v) \<and>
    (\<forall>v. settings account ''imap_password'' = Some v \<longrightarrow>
       settings result ''imap_password'' = Some v) \<and>
    (\<forall>v. settings account ''container_folder'' = Some v \<longrightarrow>
       settings result ''container_folder'' =
         Some (if preset_path_taken E account \<and>
                  containerFolderDefaultGetter E \<noteq> ''Mailspring'' \<and>
                  (v = JStr [] \<or> v = Undefined)
               then JStr (containerFolderDefaultGetter E) else v)) \<and>
    ((\<exists>mxRecords template defaults.
       snd (mxRecordsForDomain E (domain_of (emailAddress account))) = Inr mxRecords \<and>
       find_template E (domain_of (emailAddress account)) mxRecords = Some template \<and>
       mailcore_defaults account (clone account) (domain_of (emailAddress account)) template =
         Inr defaults \<and>
       settings result = Object_assign defaults (settings account)) \<or>
    (\<exists>mxRecords emailProvider selected incomingServer outgoingServer imapDetails smtpDetails.
       snd (mxRecordsForDomain E (domain_of (emailAddress account))) = Inr mxRecords \<and>
       find_template E (domain_of (emailAddress account)) mxRecords = None \<and>
       js_get (snd (fetch_autoconfig E (domain_of (emailAddress account)))) ''emailProvider'' =
         Inr emailProvider \<and>
       (case emailProvider of
          JArr ps \<Rightarrow> find_provider (domain_of (emailAddress account)) ps
        | _ \<Rightarrow> Inr (Some emailProvider)) = Inr (Some selected) \<and>
       js_get selected ''incomingServer'' = Inr incomingServer \<and>
       js_get selected ''outgoingServer'' = Inr outgoingServer \<and>
       handle_servers ''imap'' account incomingServer = Inr imapDetails \<and>
       handle_servers ''smtp'' account outgoingServer = Inr smtpDetails \<and>
       settings result =
         Object_assign
           (autoconfig_settings (clone account) (domain_of (emailAddress account))
              imapDetails smtpDetails)
           (settings account)) \<or>
    (preset_path_taken E account \<and>
     (\<exists>t defaults.
        select_mstemplate E (domain_of (emailAddress account)) account = Some t \<and>
        mailspring_defaults account (clone account) (domain_of (emailAddress account)) t =
          Inr defaults \<and>
        settings result =
          container_folder_override (containerFolderDefaultGetter E)
            (Object_assign defaults (settings account)))))"
  using existing_fields_kept [OF res] expand_result_pinned [OF res]
  by (intro conjI) blast+

theorem existing_settings_preserved_witness:
  "\<exists>r. snd (expandAccountWithCommonSettings (offline_env\<lparr>containerFolderDefaultGetter := ''Folders''\<rparr>) (new_Account [] [] Undefined ''ann@example.com'' [] [''imap_password'' \<mapsto> JStr ''secret'', ''container_folder'' \<mapsto> JStr ''Archive''])) = Inr r \<and>
      settings r ''imap_password'' = Some (JStr ''secret'') \<and>
      settings r ''container_folder'' = Some (JStr ''Archive'')"
proof -
  let ?E = "offline_env\<lparr>containerFolderDefaultGetter := ''Folders''\<rparr>"
  let ?a = "new_Account [] [] Undefined ''ann@example.com'' [] [''imap_password'' \<mapsto> JStr ''secret'', ''container_folder'' \<mapsto> JStr ''Archive'']"
  obtain r where r: "snd (expandAccountWithCommonSettings ?E ?a) = Inr r"
    by (simp add: expand_eval)
  have s: "settings ?a ''imap_password'' = Some (JStr ''secret'')"
          "settings ?a ''container_folder'' = Some (JStr ''Archive'')"
    by (simp_all add: new_Account_def)
  from existing_settings_preserved [OF r] s
  have "settings r ''imap_password'' = Some (JStr ''secret'')"
       "settings r ''container_folder'' = Some (JStr ''Archive'')"
    by auto
  with r show ?thesis by blast
qed

text \<open>
  The claim as stated fails: on the preset-table path, with the deployment default
  \<open>Folders\<close>, an account that carries \<open>container_folder\<close> as the empty string comes back with
  \<open>Folders\<close>.
\<close>

theorem existing_container_folder_overwritten:
  "\<exists>r. snd (expandAccountWithCommonSettings (offline_env\<lparr>containerFolderDefaultGetter := ''Folders''\<rparr>) (new_Account [] [] Undefined ''ann@example.com'' [] [''imap_password'' \<mapsto> JStr ''secret'', ''container_folder'' \<mapsto> JStr []])) = Inr r \<and>
      settings (new_Account [] [] Undefined ''ann@example.com'' [] [''imap_password'' \<mapsto> JStr ''secret'', ''container_folder'' \<mapsto> JStr []]) ''container_folder'' = Some (JStr []) \<and>
      settings r ''container_folder'' = Some (JStr ''Folders'')"
  by (simp add: expand_eval)

theorem container_folder_of_result_witness:
  "(\<exists>r. snd (expandAccountWithCommonSettings (offline_env\<lparr>
        regex_test := (\<lambda>src s. src = ''^example'' @ [backslash] @ ''.com$'' \<and> s = ''example.com''),
        MailcoreProviderSettings :=
          [\<lparr>domain_match = [''example'' @ [backslash] @ ''.com''], mx_match = [],
            servers_imap = [\<lparr>mc_hostname = JStr ''imap.{domain}'', mc_port = JNum 993,
                             mc_starttls = Undefined, mc_ssl = JBool True, mc_tls = Undefined\<rparr>],
            servers_smtp = [\<lparr>mc_hostname = JStr ''smtp.{domain}'', mc_port = JNum 587,
                             mc_starttls = JBool True, mc_ssl = Undefined, mc_tls = Undefined\<rparr>]\<rparr>],
        containerFolderDefaultGetter := ''Folders''\<rparr>) (new_Account [] [] Undefined ''ann@example.com'' [] Map.empty)) = Inr r \<and>
        settings r ''container_folder'' = Some (JStr [])) \<and>
   (\<exists>r. snd (expandAccountWithCommonSettings (offline_env\<lparr>containerFolderDefaultGetter := ''Folders''\<rparr>) (new_Account [] [] Undefined ''ann@example.com'' [] Map.empty)) = Inr r \<and>
        settings r ''container_folder'' = Some (JStr ''Folders''))"
proof -
  let ?E1 = "offline_env\<lparr>
        regex_test := (\<lambda>src s. src = ''^example'' @ [backslash] @ ''.com$'' \<and> s = ''example.com''),
        MailcoreProviderSettings :=
          [\<lparr>domain_match = [''example'' @ [backslash] @ ''.com''], mx_match = [],
            servers_imap = [\<lparr>mc_hostname = JStr ''imap.{domain}'', mc_port = JNum 993,
                             mc_starttls = Undefined, mc_ssl = JBool True, mc_tls = Undefined\<rparr>],
            servers_smtp = [\<lparr>mc_hostname = JStr ''smtp.{domain}'', mc_port = JNum 587,
                             mc_starttls = JBool True, mc_ssl = Undefined, mc_tls = Undefined\<rparr>]\<rparr>],
        containerFolderDefaultGetter := ''Folders''\<rparr>"
  let ?E4 = "offline_env\<lparr>containerFolderDefaultGetter := ''Folders''\<rparr>"
  let ?a = "new_Account [] [] Undefined ''ann@example.com'' [] Map.empty"
  obtain r1 where r1: "snd (expandAccountWithCommonSettings ?E1 ?a) = Inr r1"
    by (simp add: expand_eval)
  obtain r4 where r4: "snd (expandAccountWithCommonSettings ?E4 ?a) = Inr r4"
    by (simp add: expand_eval)
  have p1: "\<not> preset_path_taken ?E1 ?a"
    by (simp add: expand_eval)
  have p4: "preset_path_taken ?E4 ?a"
    by (simp add: expand_eval interpret_autoconfig_def)
  have s4: "select_mstemplate ?E4 (domain_of (emailAddress ?a)) ?a =
            Some (fallback_template ''example.com'')"
    by (simp add: expand_eval)
  have e: "settings ?a ''container_folder'' = None"
    by (simp add: new_Account_def)
  from container_folder_of_result [OF r1] p1 e
  have c1: "settings r1 ''container_folder'' = Some (JStr [])"
    by simp
  from container_folder_of_result [OF r4] p4 s4 e
  have c4: "settings r4 ''container_folder'' = Some (JStr ''Folders'')"
    by (auto simp: fallback_template_def)
  from r1 c1 r4 c4 show ?thesis by blast
qed

text \<open>
  The claim as stated fails: a structured template sets no container folder and the
  deployment default is \<open>Folders\<close>, yet the returned \<open>container_folder\<close> is the empty
  string.
\<close>

theorem structured_path_ignores_container_folder_default:
  "\<exists>r. snd (expandAccountWithCommonSettings (offline_env\<lparr>
        regex_test := (\<lambda>src s. src = ''^example'' @ [backslash] @ ''.com$'' \<and> s = ''example.com''),
        MailcoreProviderSettings :=
          [\<lparr>domain_match = [''example'' @ [backslash] @ ''.com''], mx_match = [],
            servers_imap = [\<lparr>mc_hostname = JStr ''imap.{domain}'', mc_port = JNum 993,
                             mc_starttls = Undefined, mc_ssl = JBool True, mc_tls = Undefined\<rparr>],
            servers_smtp = [\<lparr>mc_hostname = JStr ''smtp.{domain}'', mc_port = JNum 587,
                             mc_starttls = JBool True, mc_ssl = Undefined, mc_tls = Undefined\<rparr>]\<rparr>],
        containerFolderDefaultGetter := ''Folders''\<rparr>) (new_Account [] [] Undefined ''ann@example.com'' [] Map.empty)) = Inr r \<and>
      containerFolderDefaultGetter (offline_env\<lparr>
        regex_test := (\<lambda>src s. src = ''^example'' @ [backslash] @ ''.com$'' \<and> s = ''example.com''),
        MailcoreProviderSettings :=
          [\<lparr>domain_match = [''example'' @ [backslash] @ ''.com''], mx_match = [],
            servers_imap = [\<lparr>mc_hostname = JStr ''imap.{domain}'', mc_port = JNum 993,
                             mc_starttls = Undefined, mc_ssl = JBool True, mc_tls = Undefined\<rparr>],
            servers_smtp = [\<lparr>mc_hostname = JStr ''smtp.{domain}'', mc_port = JNum 587,
                             mc_starttls = JBool True, mc_ssl = Undefined, mc_tls = Undefined\<rparr>]\<rparr>],
        containerFolderDefaultGetter := ''Folders''\<rparr>) = ''Folders'' \<and>
      settings (new_Account [] [] Undefined ''ann@example.com'' [] Map.empty) ''container_folder'' = None \<and>
      settings r ''container_folder'' = Some (JStr [])"
  by (simp add: expand_eval)

lemma idForAccount_agree:
  assumes "sget s1 ''imap_username'' = sget s2 ''imap_username''"
      and "sget s1 ''imap_host'' = sget s2 ''imap_host''"
      and "sget s1 ''smtp_username'' = sget s2 ''smtp_username''"
      and "sget s1 ''smtp_host'' = sget s2 ''smtp_host''"
  shows "idForAccount H e s1 = idForAccount H e s2"
  using assms
  by (simp add: idForAccount_def idString_def settingsThatCouldChangeMailContents_def)

lemma sget_coerce_port: "k \<noteq> k' \<Longrightarrow> sget (coerce_port k' s) k = sget s k"
  by (simp add: coerce_port_def sget_def)

lemma sget_upd_other: "k \<noteq> k' \<Longrightarrow> sget (s(k' \<mapsto> v)) k = sget s k"
  by (simp add: sget_def)

lemma finalize_account_id:
  assumes "finalize_account E a = Inr b"
  shows "acct_id b = idForAccount (sha256_hex E) (JStr (emailAddress b)) (settings b)"
proof -
  from assms obtain s2 where
    b: "b = a\<lparr>settings :=
             coerce_port ''smtp_port'' (coerce_port ''imap_port''
               (s2(''username'' \<mapsto> js_or (sget s2 ''username'') (sget s2 ''email'')))),
           acct_id := idForAccount (sha256_hex E) (JStr (emailAddress a)) s2,
           acct_label :=
             (if acct_label a \<noteq> [] \<and> js_includes (acct_label a) CHR ''@''
              then emailAddress a else acct_label a)\<rparr>"
    by (auto simp: finalize_account_def bindE_def Let_def split: sum.splits)
  have "sget (settings b) k = sget s2 k"
    if "k \<noteq> ''smtp_port''" "k \<noteq> ''imap_port''" "k \<noteq> ''username''" for k
    using that by (simp add: b sget_coerce_port sget_upd_other)
  then have "idForAccount (sha256_hex E) (JStr (emailAddress a)) (settings b) =
             idForAccount (sha256_hex E) (JStr (emailAddress a)) s2"
    by (intro idForAccount_agree) simp_all
  then show ?thesis by (simp add: b)
qed

lemma finalizeAndValidateAccount_id:
  assumes "snd (finalizeAndValidateAccount E a) = Inr b"
  shows "acct_id b = idForAccount (sha256_hex E) (JStr (emailAddress b)) (settings b)"
proof -
  from assms obtain c where c: "finalize_account E a = Inr c" and b: "b = c\<lparr>authedAt := Some (now E)\<rparr>"
    by (auto simp: finalizeAndValidateAccount_def split: sum.splits option.splits)
  from finalize_account_id [OF c] b show ?thesis by simp
qed

lemma bindIO_Inr:
  assumes "snd (bindIO m f) = Inr y"
  obtains x where "snd m = Inr x" "snd (f x) = Inr y"
  using assms by (auto simp: bindIO_def split: sum.splits)

lemma buildGmail_finalized:
  assumes "snd (buildGmailAccountFromAuthResponse E code) = Inr acc"
  shows "\<exists>a. snd (finalizeAndValidateAccount E a) = Inr acc"
  using assms unfolding buildGmailAccountFromAuthResponse_def
  by (elim bindIO_Inr) blast

lemma buildMicrosoft_finalized:
  assumes "snd (buildMicrosoftAccountFromAuthResponse E code prov) = Inr acc"
  shows "\<exists>a. snd (finalizeAndValidateAccount E a) = Inr acc"
  using assms unfolding buildMicrosoftAccountFromAuthResponse_def
  by (elim bindIO_Inr) (auto split: if_splits elim!: bindIO_Inr)

subsection \<open>Identity of the accounts the OAuth builders return\<close>

text \<open>
  Claim C7. Every account returned by \<open>buildGmailAccountFromAuthResponse\<close> or by
  \<open>buildMicrosoftAccountFromAuthResponse\<close> has as its id the identity hash of its own
  email address and its own final settings: the first 8 characters of the digest of the
  address followed by the JSON of the \<open>imap_username\<close>, \<open>imap_host\<close>, \<open>smtp_username\<close> and
  \<open>smtp_host\<close> of the returned account. (The id the builder assigns before it calls the
  finalizer is replaced there; what the finalizer changes afterwards, \<open>username\<close> and the
  two ports, is none of the four fields.)
\<close>

theorem built_account_id:
  "(snd (buildGmailAccountFromAuthResponse E code) = Inr acc \<or>
    snd (buildMicrosoftAccountFromAuthResponse E code prov) = Inr acc) \<Longrightarrow>
   acct_id acc = idForAccount (sha256_hex E) (JStr (emailAddress acc)) (settings acc) \<and>
   acct_id acc =
     take 8 (sha256_hex E (emailAddress acc @ JSON_stringify (JObj
       [(''imap_username'', sget (settings acc) ''imap_username''),
        (''imap_host'', sget (settings acc) ''imap_host''),
        (''smtp_username'', sget (settings acc) ''smtp_username''),
        (''smtp_host'', sget (settings acc) ''smtp_host'')])))"
proof -
  assume "snd (buildGmailAccountFromAuthResponse E code) = Inr acc \<or>
    snd (buildMicrosoftAccountFromAuthResponse E code prov) = Inr acc"
  then obtain a where "snd (finalizeAndValidateAccount E a) = Inr acc"
    using buildGmail_finalized buildMicrosoft_finalized by blast
  from finalizeAndValidateAccount_id [OF this]
  show ?thesis
    by (simp add: idForAccount_def idString_def settingsThatCouldChangeMailContents_def)
qed

lemma snd_bindIO:
  "snd (bindIO m f) = (case snd m of Inl e \<Rightarrow> Inl e | Inr x \<Rightarrow> snd (f x))"
  by (simp add: bindIO_def split: sum.splits)

lemmas build_eval =
  buildGmailAccountFromAuthResponse_def buildMicrosoftAccountFromAuthResponse_def snd_bindIO
  fetchPostWithFormBody_def fetch_profile_def expand_new_account_def
  finalizeAndValidateAccount_def finalize_account_def trim_host_def coerce_port_def
  interpret_autoconfig_def

theorem built_account_id_witness:
  "(\<exists>acc. snd (buildGmailAccountFromAuthResponse (offline_env\<lparr>
        fetch_post := (\<lambda>url form. Inr \<lparr>j_status = 200, j_statusText = ''OK'',
          j_json = Some (JObj [(''access_token'', JStr ''at-1''), (''refresh_token'', JStr ''rt-1'')])\<rparr>),
        fetch_bearer := (\<lambda>url auth.
          if url = ''https://graph.microsoft.com/v1.0/me''
          then Inr \<lparr>j_status = 200, j_statusText = ''OK'',
                 j_json = Some (JObj [(''mail'', JStr ''Ann@Example.com''), (''displayName'', JStr ''Ann'')])\<rparr>
          else Inr \<lparr>j_status = 200, j_statusText = ''OK'',
                 j_json = Some (JObj [(''email'', JStr ''ann@example.com''), (''name'', JStr ''Ann'')])\<rparr>)\<rparr>) ''code-1'') = Inr acc \<and>
        emailAddress acc = ''ann@example.com'' \<and>
        sget (settings acc) ''imap_host'' = JStr ''imap.example.com'' \<and>
        acct_id acc =
          idForAccount (sha256_hex (offline_env\<lparr>
        fetch_post := (\<lambda>url form. Inr \<lparr>j_status = 200, j_statusText = ''OK'',
          j_json = Some (JObj [(''access_token'', JStr ''at-1''), (''refresh_token'', JStr ''rt-1'')])\<rparr>),
        fetch_bearer := (\<lambda>url auth.
          if url = ''https://graph.microsoft.com/v1.0/me''
          then Inr \<lparr>j_status = 200, j_statusText = ''OK'',
                 j_json = Some (JObj [(''mail'', JStr ''Ann@Example.com''), (''displayName'', JStr ''Ann'')])\<rparr>
          else Inr \<lparr>j_status = 200, j_statusText = ''OK'',
                 j_json = Some (JObj [(''email'', JStr ''ann@example.com''), (''name'', JStr ''Ann'')])\<rparr>)\<rparr>)) (JStr ''ann@example.com'') (settings acc)) \<and>
   (\<exists>acc. snd (buildMicrosoftAccountFromAuthResponse (offline_env\<lparr>
        fetch_post := (\<lambda>url form. Inr \<lparr>j_status = 200, j_statusText = ''OK'',
          j_json = Some (JObj [(''access_token'', JStr ''at-1''), (''refresh_token'', JStr ''rt-1'')])\<rparr>),
        fetch_bearer := (\<lambda>url auth.
          if url = ''https://graph.microsoft.com/v1.0/me''
          then Inr \<lparr>j_status = 200, j_statusText = ''OK'',
                 j_json = Some (JObj [(''mail'', JStr ''Ann@Example.com''), (''displayName'', JStr ''Ann'')])\<rparr>
          else Inr \<lparr>j_status = 200, j_statusText = ''OK'',
                 j_json = Some (JObj [(''email'', JStr ''ann@example.com''), (''name'', JStr ''Ann'')])\<rparr>)\<rparr>) ''code-2'' ''office365'') = Inr acc \<and>
        emailAddress acc = ''Ann@Example.com'' \<and>
        sget (settings acc) ''imap_host'' = JStr ''imap.example.com'' \<and>
        acct_id acc =
          idForAccount (sha256_hex (offline_env\<lparr>
        fetch_post := (\<lambda>url form. Inr \<lparr>j_status = 200, j_statusText = ''OK'',
          j_json = Some (JObj [(''access_token'', JStr ''at-1''), (''refresh_token'', JStr ''rt-1'')])\<rparr>),
        fetch_bearer := (\<lambda>url auth.
          if url = ''https://graph.microsoft.com/v1.0/me''
          then Inr \<lparr>j_status = 200, j_statusText = ''OK'',
                 j_json = Some (JObj [(''mail'', JStr ''Ann@Example.com''), (''displayName'', JStr ''Ann'')])\<rparr>
          else Inr \<lparr>j_status = 200, j_statusText = ''OK'',
                 j_json = Some (JObj [(''email'', JStr ''ann@example.com''), (''name'', JStr ''Ann'')])\<rparr>)\<rparr>)) (JStr ''Ann@Example.com'') (settings acc))"
proof -
  let ?E = "offline_env\<lparr>
        fetch_post := (\<lambda>url form. Inr \<lparr>j_status = 200, j_statusText = ''OK'',
          j_json = Some (JObj [(''access_token'', JStr ''at-1''), (''refresh_token'', JStr ''rt-1'')])\<rparr>),
        fetch_bearer := (\<lambda>url auth.
          if url = ''https://graph.microsoft.com/v1.0/me''
          then Inr \<lparr>j_status = 200, j_statusText = ''OK'',
                 j_json = Some (JObj [(''mail'', JStr ''Ann@Example.com''), (''displayName'', JStr ''Ann'')])\<rparr>
          else Inr \<lparr>j_status = 200, j_statusText = ''OK'',
                 j_json = Some (JObj [(''email'', JStr ''ann@example.com''), (''name'', JStr ''Ann'')])\<rparr>)\<rparr>"
  obtain g where g: "snd (buildGmailAccountFromAuthResponse ?E ''code-1'') = Inr g"
    and ge: "emailAddress g = ''ann@example.com''"
    and gh: "sget (settings g) ''imap_host'' = JStr ''imap.example.com''"
    by (simp add: build_eval expand_eval)
  obtain m where m: "snd (buildMicrosoftAccountFromAuthResponse ?E ''code-2'' ''office365'') = Inr m"
    and me: "emailAddress m = ''Ann@Example.com''"
    and mh: "sget (settings m) ''imap_host'' = JStr ''imap.example.com''"
    by (simp add: build_eval expand_eval)
  from built_account_id [of ?E "''code-1''" g "''office365''"] g ge
  have 1: "acct_id g = idForAccount (sha256_hex ?E) (JStr ''ann@example.com'') (settings g)"
    by simp
  from built_account_id [of ?E "''code-2''" m "''office365''"] m me
  have 2: "acct_id m = idForAccount (sha256_hex ?E) (JStr ''Ann@Example.com'') (settings m)"
    by simp
  from g ge gh 1 m me mh 2 show ?thesis by blast
qed

end
